theory Spec2Isabelle
  imports Main "HOL-Library.Word"
begin

unbundle bit_operations_syntax

section \<open>Cartridge: data model (cartridge.cpp)\<close>

text \<open>
  The machine types of the source: \<open>uint8\<close>, \<open>uint16\<close>, \<open>uint32\<close> and \<open>uint64\<close> are
  words of that width; arithmetic on them wraps. Where C++ promotes an operand to
  \<open>int\<close> before an operation, the model computes in 32 bits and narrows afterwards.
\<close>

type_synonym uint8 = "8 word"
type_synonym uint16 = "16 word"
type_synonym uint32 = "32 word"
type_synonym uint64 = "64 word"

text \<open>
  Modelled from the spec: the header \<open>cartridge.h\<close>, which declares the enumeration of
  controllers, the type-info row, the clock record and the members of \<open>m_mbc_data\<close>, is
  not among the sources. The enumeration follows the order of \<open>MBC_NAME_STRINGS\<close> in
  \<open>cartridge.cpp\<close>, its numeric values are the positions in that table.
\<close>

datatype MBC = MBC_NONE | MBC_MBC1 | MBC_MBC2 | MBC_MBC3 | MBC_MBC4 | MBC_MBC5 | MBC_MMM01

fun mbc_code :: "MBC \<Rightarrow> uint32" where
  "mbc_code MBC_NONE = 0"
| "mbc_code MBC_MBC1 = 1"
| "mbc_code MBC_MBC2 = 2"
| "mbc_code MBC_MBC3 = 3"
| "mbc_code MBC_MBC4 = 4"
| "mbc_code MBC_MBC5 = 5"
| "mbc_code MBC_MMM01 = 6"

text \<open>
  Modelled from the spec: one row of \<open>CART_TYPEINFOS\<close>, with the columns of the table in
  \<open>cartridge.cpp\<close> (the description string is left out); the clock record with the
  widths of section 3 of the specification, which are the widths \<open>LoadState\<close> reads;
  and the value of \<open>GetCurrentRTCTime\<close>, whose four fields the code converts to
  \<open>uint32\<close>.
\<close>

record CartridgeTypeInfo =
  ti_id :: uint8
  ti_mbc :: MBC
  ti_ram :: bool
  ti_battery :: bool
  ti_timer :: bool
  ti_rumble :: bool

record RTCData =
  base_time :: uint64
  offset_seconds :: uint8
  offset_minutes :: uint8
  offset_hours :: uint8
  offset_days :: uint16
  active :: bool

record RTCValue =
  seconds :: uint32
  minutes :: uint32
  hours :: uint32
  days :: uint32

text \<open>
  Modelled from the spec: the members of \<open>m_mbc_data\<close>, named as the code names them.
  The field widths are those of section 3 of the specification, which are the widths
  that \<open>LoadState\<close> and \<open>SaveState\<close> read and write; the latch register and the five
  latched bytes of MBC3 are bytes. Only the member that belongs to \<open>m_mbc\<close> is ever
  accessed, so the three members are kept side by side.
\<close>

record MBC1Data =
  mbc1_ram_enable :: bool
  mbc1_bank_mode :: uint8
  mbc1_rom_bank_number :: uint8
  mbc1_ram_bank_number :: uint8
  mbc1_active_rom_bank :: uint8
  mbc1_active_ram_bank :: uint8

record MBC3Data =
  mbc3_rom_bank_number :: uint8
  mbc3_ram_bank_number :: uint8
  mbc3_ram_rtc_enable :: bool
  mbc3_rtc_latch :: uint8
  mbc3_rtc_latch_data :: "uint8 list"

record MBC5Data =
  mbc5_active_rom_bank :: uint16
  mbc5_rom_bank_number :: uint16
  mbc5_ram_bank_number :: uint8
  mbc5_ram_enable :: bool

text \<open>
  The cartridge object. \<open>m_external_ram\<close> is the byte buffer; the null pointer of a
  cartridge without RAM is the empty list. \<open>m_rom_banks\<close> is never written after load.
\<close>

record Cartridge =
  m_mbc :: MBC
  m_crc :: uint32
  m_typeinfo :: CartridgeTypeInfo
  m_rom_banks :: "uint8 list list"
  m_num_rom_banks :: uint32
  m_external_ram :: "uint8 list"
  m_external_ram_size :: uint32
  m_external_ram_modified :: bool
  m_rtc_data :: RTCData
  mbc1 :: MBC1Data
  mbc3 :: MBC3Data
  mbc5 :: MBC5Data

section \<open>Cartridge: persistence hooks\<close>

text \<open>
  \<open>SaveRAM\<close> and \<open>SaveRTC\<close> hand a copy of the RAM or of the clock record to the host
  callback; the host is outside the cartridge, so of \<open>SaveRAM\<close> only the reset of the
  modified flag remains and \<open>SaveRTC\<close> leaves the cartridge as it is.
\<close>

definition SaveRAM :: "Cartridge \<Rightarrow> Cartridge" where
  "SaveRAM c = c\<lparr>m_external_ram_modified := False\<rparr>"

definition SaveRTC :: "Cartridge \<Rightarrow> Cartridge" where
  "SaveRTC c = c"

section \<open>Cartridge: the real-time clock\<close>

text \<open>
  \<open>GetCurrentRTCTime\<close>; the host clock \<open>Timestamp::Now().AsUnixTimestamp()\<close> is the
  parameter \<open>now\<close>. The products are formed in \<open>int\<close> and converted to \<open>uint64\<close>; the
  product with 86400 can leave the range of \<open>int\<close> when \<open>offset_days\<close> exceeds 24855,
  for which the model takes the two's-complement result, sign-extended.
\<close>

definition GetCurrentRTCTime :: "uint64 \<Rightarrow> Cartridge \<Rightarrow> RTCValue" where
  "GetCurrentRTCTime now c =
     (let r = m_rtc_data c;
          diff_time0 = now - base_time r;
          diff_time1 = diff_time0 + ucast (offset_seconds r);
          diff_time2 = diff_time1 + scast ((ucast (offset_minutes r) :: uint32) * 60);
          diff_time3 = diff_time2 + scast ((ucast (offset_hours r) :: uint32) * 3600);
          diff_time = diff_time3 + scast ((ucast (offset_days r) :: uint32) * 86400)
      in \<lparr>seconds = ucast (diff_time mod 60),
          minutes = ucast ((diff_time div 60) mod 60),
          hours = ucast ((diff_time div 3600) mod 24),
          days = ucast (diff_time div 86400)\<rparr>)"


section \<open>Cartridge: MBC1\<close>

definition MBC_MBC1_UpdateActiveBanks :: "Cartridge \<Rightarrow> Cartridge" where
  "MBC_MBC1_UpdateActiveBanks c =
     (let d = mbc1 c;
          d1 = (if mbc1_bank_mode d = 0
                then d\<lparr>mbc1_active_ram_bank := 0,
                       mbc1_active_rom_bank :=
                         push_bit 5 (mbc1_ram_bank_number d) OR (mbc1_rom_bank_number d AND 0x1F)\<rparr>
                else d\<lparr>mbc1_active_ram_bank := mbc1_ram_bank_number d AND 0x03,
                       mbc1_active_rom_bank := mbc1_rom_bank_number d\<rparr>);
          d2 = (if mbc1_active_rom_bank d1 = 0x00 \<or> mbc1_active_rom_bank d1 = 0x20 \<or>
                   mbc1_active_rom_bank d1 = 0x40 \<or> mbc1_active_rom_bank d1 = 0x60
                then d1\<lparr>mbc1_active_rom_bank := mbc1_active_rom_bank d1 + 1\<rparr>
                else d1);
          d3 = (if (ucast (mbc1_active_rom_bank d2) :: uint32) \<ge> m_num_rom_banks c
                then d2\<lparr>mbc1_active_rom_bank := (ucast (m_num_rom_banks c) :: uint8) - 1\<rparr>
                else d2)
      in c\<lparr>mbc1 := d3\<rparr>)"

definition MBC_MBC1_Reset :: "Cartridge \<Rightarrow> Cartridge" where
  "MBC_MBC1_Reset c =
     MBC_MBC1_UpdateActiveBanks
       (c\<lparr>mbc1 := (mbc1 c)\<lparr>mbc1_ram_enable := False, mbc1_bank_mode := 0,
                            mbc1_rom_bank_number := 1, mbc1_ram_bank_number := 0\<rparr>\<rparr>)"

text \<open>
  The offset into external RAM: \<open>(uint16)bank * (uint16)8192 + (address - 0xA000)\<close> is
  formed in \<open>int\<close> and stored into a \<open>uint16\<close>.
\<close>

definition eram_offset_of :: "uint8 \<Rightarrow> uint16 \<Rightarrow> uint16" where
  "eram_offset_of bank address =
     ucast ((ucast bank :: uint32) * 8192 + ((ucast address :: uint32) - 0xA000))"

definition store_eram :: "uint16 \<Rightarrow> uint8 \<Rightarrow> Cartridge \<Rightarrow> Cartridge" where
  "store_eram eram_offset v c =
     (if (ucast eram_offset :: uint32) < m_external_ram_size c
      then (let c1 = (if m_external_ram c ! unat eram_offset \<noteq> v
                      then c\<lparr>m_external_ram_modified := True\<rparr> else c)
            in c1\<lparr>m_external_ram := (m_external_ram c1)[unat eram_offset := v]\<rparr>)
      else c)"

definition MBC_MBC1_Write :: "uint16 \<Rightarrow> uint8 \<Rightarrow> Cartridge \<Rightarrow> Cartridge" where
  "MBC_MBC1_Write address v c =
     (let sel = address AND 0xF000 in
      if sel = 0x0000 \<or> sel = 0x1000 then
        (let c1 = c\<lparr>mbc1 := (mbc1 c)\<lparr>mbc1_ram_enable := (v = 0x0A)\<rparr>\<rparr>
         in if \<not> mbc1_ram_enable (mbc1 c1) \<and> m_external_ram_modified c1 then SaveRAM c1 else c1)
      else if sel = 0x2000 \<or> sel = 0x3000 then
        MBC_MBC1_UpdateActiveBanks (c\<lparr>mbc1 := (mbc1 c)\<lparr>mbc1_rom_bank_number := v\<rparr>\<rparr>)
      else if sel = 0x4000 \<or> sel = 0x5000 then
        MBC_MBC1_UpdateActiveBanks (c\<lparr>mbc1 := (mbc1 c)\<lparr>mbc1_ram_bank_number := v\<rparr>\<rparr>)
      else if sel = 0x6000 \<or> sel = 0x7000 then
        MBC_MBC1_UpdateActiveBanks (c\<lparr>mbc1 := (mbc1 c)\<lparr>mbc1_bank_mode := v\<rparr>\<rparr>)
      else if address \<ge> 0xA000 \<and> address < 0xC000 then
        (if m_external_ram c \<noteq> [] \<and> mbc1_ram_enable (mbc1 c)
         then store_eram (eram_offset_of (mbc1_active_ram_bank (mbc1 c)) address) v c
         else c)
      else c)"

section \<open>Cartridge: MBC3\<close>

definition MBC_MBC3_UpdateActiveBanks :: "Cartridge \<Rightarrow> Cartridge" where
  "MBC_MBC3_UpdateActiveBanks c =
     (let d = mbc3 c;
          d1 = (if mbc3_rom_bank_number d = 0x00
                then d\<lparr>mbc3_rom_bank_number := mbc3_rom_bank_number d + 1\<rparr> else d);
          d2 = (if (ucast (mbc3_rom_bank_number d1) :: uint32) \<ge> m_num_rom_banks c
                then d1\<lparr>mbc3_rom_bank_number := (ucast (m_num_rom_banks c) :: uint8) - 1\<rparr>
                else d1)
      in c\<lparr>mbc3 := d2\<rparr>)"

definition MBC_MBC3_Reset :: "Cartridge \<Rightarrow> Cartridge" where
  "MBC_MBC3_Reset c =
     MBC_MBC3_UpdateActiveBanks
       (c\<lparr>mbc3 := (mbc3 c)\<lparr>mbc3_rom_bank_number := 1, mbc3_ram_bank_number := 0,
                            mbc3_ram_rtc_enable := False\<rparr>\<rparr>)"

text \<open>The five bytes stored by the latch, from the value of \<open>GetCurrentRTCTime\<close>.\<close>

definition latch_bytes :: "RTCValue \<Rightarrow> uint8 list" where
  "latch_bytes t =
     [ucast (seconds t), ucast (minutes t), ucast (hours t), ucast (days t AND 0xFF),
      ucast (drop_bit 8 (days t) AND 0x01) OR push_bit 7 (if days t \<ge> 512 then 1 else 0)]"




text \<open>The write to a clock register, selected by \<open>ram_bank_number\<close> in 0x08..0x0C.\<close>

definition rtc_register_write :: "uint8 \<Rightarrow> Cartridge \<Rightarrow> Cartridge" where
  "rtc_register_write v c =
     (let r = m_rtc_data c; sel = mbc3_ram_bank_number (mbc3 c) in
      if sel = 0x08 then
        (if offset_seconds r \<noteq> v then SaveRTC (c\<lparr>m_rtc_data := r\<lparr>offset_seconds := v\<rparr>\<rparr>) else c)
      else if sel = 0x09 then
        (if offset_minutes r \<noteq> v then SaveRTC (c\<lparr>m_rtc_data := r\<lparr>offset_minutes := v\<rparr>\<rparr>) else c)
      else if sel = 0x0A then
        (if offset_hours r \<noteq> v then SaveRTC (c\<lparr>m_rtc_data := r\<lparr>offset_hours := v\<rparr>\<rparr>) else c)
      else if sel = 0x0B then
        (let new_offset_days = (offset_days r AND 0x300) OR ucast v in
         if new_offset_days \<noteq> offset_days r
         then SaveRTC (c\<lparr>m_rtc_data := r\<lparr>offset_days := new_offset_days\<rparr>\<rparr>) else c)
      else if sel = 0x0C then
        (let new_offset_days =
               (offset_days r AND 0xFF) OR push_bit 8 (ucast (v AND 0x01)) OR push_bit 2 (ucast (v AND 0x80));
             c1 = (if new_offset_days \<noteq> offset_days r
                   then SaveRTC (c\<lparr>m_rtc_data := r\<lparr>offset_days := new_offset_days\<rparr>\<rparr>) else c)
         in c1\<lparr>m_rtc_data := (m_rtc_data c1)\<lparr>active := (v AND 0x40 = 0)\<rparr>\<rparr>)
      else c)"

definition MBC_MBC3_Write :: "uint64 \<Rightarrow> uint16 \<Rightarrow> uint8 \<Rightarrow> Cartridge \<Rightarrow> Cartridge" where
  "MBC_MBC3_Write now address v c =
     (let sel = address AND 0xF000 in
      if sel = 0x0000 \<or> sel = 0x1000 then
        (let c1 = c\<lparr>mbc3 := (mbc3 c)\<lparr>mbc3_ram_rtc_enable := (v = 0x0A)\<rparr>\<rparr>
         in if \<not> mbc3_ram_rtc_enable (mbc3 c1) \<and> m_external_ram_modified c1 then SaveRAM c1 else c1)
      else if sel = 0x2000 \<or> sel = 0x3000 then
        MBC_MBC3_UpdateActiveBanks (c\<lparr>mbc3 := (mbc3 c)\<lparr>mbc3_rom_bank_number := v AND 0x7F\<rparr>\<rparr>)
      else if sel = 0x4000 \<or> sel = 0x5000 then
        MBC_MBC3_UpdateActiveBanks (c\<lparr>mbc3 := (mbc3 c)\<lparr>mbc3_ram_bank_number := v\<rparr>\<rparr>)
      else if sel = 0x6000 \<or> sel = 0x7000 then
        (let c1 = (if mbc3_rtc_latch (mbc3 c) \<noteq> 0x01 \<and> v = 0x01
                   then c\<lparr>mbc3 := (mbc3 c)\<lparr>mbc3_rtc_latch_data :=
                                                 latch_bytes (GetCurrentRTCTime now c)\<rparr>\<rparr>
                   else c)
         in c1\<lparr>mbc3 := (mbc3 c1)\<lparr>mbc3_rtc_latch := v\<rparr>\<rparr>)
      else if address \<ge> 0xA000 \<and> address < 0xC000 then
        (if mbc3_ram_rtc_enable (mbc3 c) then
           (if mbc3_ram_bank_number (mbc3 c) \<le> 0x07
            then store_eram (eram_offset_of (mbc3_ram_bank_number (mbc3 c)) address) v c
            else if mbc3_ram_bank_number (mbc3 c) \<ge> 0x08 \<and> mbc3_ram_bank_number (mbc3 c) \<le> 0x0C
            then rtc_register_write v c
            else c)
         else c)
      else c)"

section \<open>Cartridge: MBC5\<close>

text \<open>
  The clamp assigns \<open>(uint8)m_num_rom_banks - 1\<close>, an \<open>int\<close>, to the 16-bit
  \<open>active_rom_bank\<close>: the count is narrowed to 8 bits before 1 is subtracted.
\<close>

definition MBC_MBC5_UpdateActiveBanks :: "Cartridge \<Rightarrow> Cartridge" where
  "MBC_MBC5_UpdateActiveBanks c =
     (let d = mbc5 c;
          d1 = d\<lparr>mbc5_active_rom_bank := mbc5_rom_bank_number d\<rparr>;
          d2 = (if (ucast (mbc5_active_rom_bank d1) :: uint32) \<ge> m_num_rom_banks c
                then d1\<lparr>mbc5_active_rom_bank :=
                          (ucast (ucast (m_num_rom_banks c) :: uint8) :: uint16) - 1\<rparr>
                else d1)
      in c\<lparr>mbc5 := d2\<rparr>)"

definition MBC_MBC5_Reset :: "Cartridge \<Rightarrow> Cartridge" where
  "MBC_MBC5_Reset c =
     MBC_MBC5_UpdateActiveBanks
       (c\<lparr>mbc5 := (mbc5 c)\<lparr>mbc5_rom_bank_number := 1, mbc5_ram_bank_number := 0,
                            mbc5_ram_enable := False\<rparr>\<rparr>)"

definition MBC_MBC5_Write :: "uint16 \<Rightarrow> uint8 \<Rightarrow> Cartridge \<Rightarrow> Cartridge" where
  "MBC_MBC5_Write address v c =
     (let sel = address AND 0xF000 in
      if sel = 0x0000 \<or> sel = 0x1000 then
        (let c1 = c\<lparr>mbc5 := (mbc5 c)\<lparr>mbc5_ram_enable := (v = 0x0A)\<rparr>\<rparr>
         in if \<not> mbc5_ram_enable (mbc5 c1) \<and> m_external_ram_modified c1 then SaveRAM c1 else c1)
      else if sel = 0x2000 then
        MBC_MBC5_UpdateActiveBanks
          (c\<lparr>mbc5 := (mbc5 c)\<lparr>mbc5_rom_bank_number :=
                                  (mbc5_rom_bank_number (mbc5 c) AND 0x100) OR ucast v\<rparr>\<rparr>)
      else if sel = 0x3000 then
        MBC_MBC5_UpdateActiveBanks
          (c\<lparr>mbc5 := (mbc5 c)\<lparr>mbc5_rom_bank_number :=
                                  (mbc5_rom_bank_number (mbc5 c) AND 0xFF) OR push_bit 8 (ucast (v AND 0x01))\<rparr>\<rparr>)
      else if sel = 0x4000 \<or> sel = 0x5000 then
        MBC_MBC5_UpdateActiveBanks (c\<lparr>mbc5 := (mbc5 c)\<lparr>mbc5_ram_bank_number := v\<rparr>\<rparr>)
      else if address \<ge> 0xA000 \<and> address < 0xC000 then
        (if mbc5_ram_enable (mbc5 c)
         then store_eram (eram_offset_of (mbc5_ram_bank_number (mbc5 c)) address) v c
         else c)
      else c)"

section \<open>Cartridge: no controller, and the dispatch over \<open>m_mbc\<close>\<close>

definition MBC_NONE_Write :: "uint16 \<Rightarrow> uint8 \<Rightarrow> Cartridge \<Rightarrow> Cartridge" where
  "MBC_NONE_Write address v c =
     (if address \<ge> 0xA000 \<and> address < 0xC000 \<and> m_external_ram c \<noteq> [] \<and>
         (ucast (address - 0xA000) :: uint32) < m_external_ram_size c
      then c\<lparr>m_external_ram := (m_external_ram c)[unat (address - 0xA000) := v]\<rparr>
      else c)"

definition Reset :: "Cartridge \<Rightarrow> Cartridge" where
  "Reset c =
     (case m_mbc c of
        MBC_NONE \<Rightarrow> c
      | MBC_MBC1 \<Rightarrow> MBC_MBC1_Reset c
      | MBC_MBC3 \<Rightarrow> MBC_MBC3_Reset c
      | MBC_MBC5 \<Rightarrow> MBC_MBC5_Reset c
      | _ \<Rightarrow> c)"

definition CPUWrite :: "uint64 \<Rightarrow> uint16 \<Rightarrow> uint8 \<Rightarrow> Cartridge \<Rightarrow> Cartridge" where
  "CPUWrite now address v c =
     (case m_mbc c of
        MBC_NONE \<Rightarrow> MBC_NONE_Write address v c
      | MBC_MBC1 \<Rightarrow> MBC_MBC1_Write address v c
      | MBC_MBC3 \<Rightarrow> MBC_MBC3_Write now address v c
      | MBC_MBC5 \<Rightarrow> MBC_MBC5_Write address v c
      | _ \<Rightarrow> c)"

text \<open>
  The cartridge as the constructor and \<open>ParseHeader\<close> leave it (all of \<open>m_mbc_data\<close>
  and, by \<open>LoadRTC\<close>, of \<open>m_rtc_data\<close> zeroed), and the mapper initialisation of
  \<open>Load\<close>: external RAM is allocated and zeroed when its size is not 0, then the
  controller is reset. \<open>MBC_NONE_Init\<close> refuses a bank count other than 2, and a
  controller without an implementation fails the load.
\<close>

definition new_Cartridge ::
    "uint32 \<Rightarrow> CartridgeTypeInfo \<Rightarrow> uint8 list list \<Rightarrow> uint32 \<Rightarrow> uint32 \<Rightarrow> Cartridge" where
  "new_Cartridge crc ti banks num_banks ram_size =
     \<lparr>m_mbc = ti_mbc ti, m_crc = crc, m_typeinfo = ti, m_rom_banks = banks,
      m_num_rom_banks = num_banks, m_external_ram = [], m_external_ram_size = ram_size,
      m_external_ram_modified = False,
      m_rtc_data = \<lparr>base_time = 0, offset_seconds = 0, offset_minutes = 0, offset_hours = 0,
                    offset_days = 0, active = False\<rparr>,
      mbc1 = \<lparr>mbc1_ram_enable = False, mbc1_bank_mode = 0, mbc1_rom_bank_number = 0,
              mbc1_ram_bank_number = 0, mbc1_active_rom_bank = 0, mbc1_active_ram_bank = 0\<rparr>,
      mbc3 = \<lparr>mbc3_rom_bank_number = 0, mbc3_ram_bank_number = 0, mbc3_ram_rtc_enable = False,
              mbc3_rtc_latch = 0, mbc3_rtc_latch_data = [0, 0, 0, 0, 0]\<rparr>,
      mbc5 = \<lparr>mbc5_active_rom_bank = 0, mbc5_rom_bank_number = 0, mbc5_ram_bank_number = 0,
              mbc5_ram_enable = False\<rparr>\<rparr>"

definition alloc_external_ram :: "Cartridge \<Rightarrow> Cartridge" where
  "alloc_external_ram c =
     (if m_external_ram_size c > 0
      then c\<lparr>m_external_ram := replicate (unat (m_external_ram_size c)) 0\<rparr> else c)"

definition MBC_Init :: "Cartridge \<Rightarrow> Cartridge option" where
  "MBC_Init c =
     (case m_mbc c of
        MBC_NONE \<Rightarrow> (if m_num_rom_banks c \<noteq> 2 then None else Some (alloc_external_ram c))
      | MBC_MBC1 \<Rightarrow> Some (MBC_MBC1_Reset (alloc_external_ram c))
      | MBC_MBC3 \<Rightarrow> Some (MBC_MBC3_Reset (alloc_external_ram c))
      | MBC_MBC5 \<Rightarrow> Some (MBC_MBC5_Reset (alloc_external_ram c))
      | _ \<Rightarrow> None)"

section \<open>Cartridge: save states\<close>

text \<open>
  Modelled from the spec: the binary writer and reader belong to a library that is not
  among the sources. A stream is the list of its bytes; integers are stored least
  significant byte first (the layout of section 6.3 of the specification), a \<open>bool\<close> as
  one byte (0 or 1, read back as "not 0"). A read that needs more bytes than the stream
  still holds is the failure \<open>ReadPastEnd\<close> of the model (the short-read error of section
  7), with the cartridge as the sections read before have left it.
\<close>

fun le_bytes :: "nat \<Rightarrow> 'a::len word \<Rightarrow> uint8 list" where
  "le_bytes 0 w = []"
| "le_bytes (Suc n) w = ucast w # le_bytes n (drop_bit 8 w)"

fun le_word :: "uint8 list \<Rightarrow> 'a::len word" where
  "le_word [] = 0"
| "le_word (b # bs) = ucast b OR push_bit 8 (le_word bs)"

definition WriteUInt8 :: "uint8 \<Rightarrow> uint8 list" where
  "WriteUInt8 v = [v]"

definition WriteBool :: "bool \<Rightarrow> uint8 list" where
  "WriteBool b = [if b then 1 else 0]"

definition WriteUInt16 :: "uint16 \<Rightarrow> uint8 list" where
  "WriteUInt16 v = le_bytes 2 v"

definition WriteUInt32 :: "uint32 \<Rightarrow> uint8 list" where
  "WriteUInt32 v = le_bytes 4 v"

definition WriteUInt64 :: "uint64 \<Rightarrow> uint8 list" where
  "WriteUInt64 v = le_bytes 8 v"

definition ReadBytes :: "nat \<Rightarrow> uint8 list \<Rightarrow> (uint8 list \<times> uint8 list) option" where
  "ReadBytes n st = (if length st < n then None else Some (take n st, drop n st))"

definition ReadUInt8 :: "uint8 list \<Rightarrow> (uint8 \<times> uint8 list) option" where
  "ReadUInt8 st = (case st of [] \<Rightarrow> None | b # r \<Rightarrow> Some (b, r))"

definition ReadBool :: "uint8 list \<Rightarrow> (bool \<times> uint8 list) option" where
  "ReadBool st = (case st of [] \<Rightarrow> None | b # r \<Rightarrow> Some (b \<noteq> 0, r))"

definition ReadUInt16 :: "uint8 list \<Rightarrow> (uint16 \<times> uint8 list) option" where
  "ReadUInt16 st = map_option (\<lambda>(bs, r). (le_word bs, r)) (ReadBytes 2 st)"

definition ReadUInt32 :: "uint8 list \<Rightarrow> (uint32 \<times> uint8 list) option" where
  "ReadUInt32 st = map_option (\<lambda>(bs, r). (le_word bs, r)) (ReadBytes 4 st)"

definition ReadUInt64 :: "uint8 list \<Rightarrow> (uint64 \<times> uint8 list) option" where
  "ReadUInt64 st = map_option (\<lambda>(bs, r). (le_word bs, r)) (ReadBytes 8 st)"

text \<open>The reasons for which \<open>LoadState\<close> returns false, by its error messages.\<close>

datatype LoadError =
    CrcMismatch
  | ExternalRamSizeMismatch
  | MbcTypeMismatch
  | MbcStateLoadError
  | MbcTrailingTypeMismatch
  | ReadPastEnd

definition MBC_MBC1_SaveState :: "Cartridge \<Rightarrow> uint8 list" where
  "MBC_MBC1_SaveState c =
     WriteUInt8 (mbc1_active_rom_bank (mbc1 c)) @ WriteUInt8 (mbc1_active_ram_bank (mbc1 c)) @
     WriteBool (mbc1_ram_enable (mbc1 c)) @ WriteUInt8 (mbc1_bank_mode (mbc1 c)) @
     WriteUInt8 (mbc1_rom_bank_number (mbc1 c)) @ WriteUInt8 (mbc1_ram_bank_number (mbc1 c))"

definition MBC_MBC3_SaveState :: "Cartridge \<Rightarrow> uint8 list" where
  "MBC_MBC3_SaveState c =
     WriteUInt8 (mbc3_rom_bank_number (mbc3 c)) @ WriteUInt8 (mbc3_ram_bank_number (mbc3 c)) @
     WriteBool (mbc3_ram_rtc_enable (mbc3 c))"

definition MBC_MBC5_SaveState :: "Cartridge \<Rightarrow> uint8 list" where
  "MBC_MBC5_SaveState c =
     WriteUInt16 (mbc5_active_rom_bank (mbc5 c)) @ WriteUInt16 (mbc5_rom_bank_number (mbc5 c)) @
     WriteUInt8 (mbc5_ram_bank_number (mbc5 c)) @ WriteBool (mbc5_ram_enable (mbc5 c))"

definition SaveState :: "Cartridge \<Rightarrow> uint8 list" where
  "SaveState c =
     WriteUInt32 (m_crc c) @ WriteUInt32 (m_external_ram_size c) @
     (if m_external_ram_size c > 0
      then take (unat (m_external_ram_size c)) (m_external_ram c) else []) @
     WriteBool (ti_timer (m_typeinfo c)) @
     (if ti_timer (m_typeinfo c)
      then WriteUInt64 (base_time (m_rtc_data c)) @ WriteUInt16 (offset_days (m_rtc_data c)) @
           WriteUInt8 (offset_hours (m_rtc_data c)) @ WriteUInt8 (offset_minutes (m_rtc_data c)) @
           WriteUInt8 (offset_seconds (m_rtc_data c)) @ WriteBool (active (m_rtc_data c))
      else []) @
     WriteUInt32 (mbc_code (m_mbc c)) @
     (case m_mbc c of
        MBC_MBC1 \<Rightarrow> MBC_MBC1_SaveState c
      | MBC_MBC3 \<Rightarrow> MBC_MBC3_SaveState c
      | MBC_MBC5 \<Rightarrow> MBC_MBC5_SaveState c
      | _ \<Rightarrow> []) @
     WriteUInt32 (NOT (mbc_code (m_mbc c)))"

text \<open>
  The controller sections of \<open>LoadState\<close>: the fields are stored as they are read, and
  the result is false when the bank read back is not below \<open>m_num_rom_banks\<close>.
\<close>

definition MBC_MBC1_LoadState :: "Cartridge \<Rightarrow> uint8 list \<Rightarrow> (bool \<times> Cartridge \<times> uint8 list) option" where
  "MBC_MBC1_LoadState c st =
     (case ReadUInt8 st of None \<Rightarrow> None | Some (arb, st1) \<Rightarrow>
      case ReadUInt8 st1 of None \<Rightarrow> None | Some (aram, st2) \<Rightarrow>
      case ReadBool st2 of None \<Rightarrow> None | Some (en, st3) \<Rightarrow>
      case ReadUInt8 st3 of None \<Rightarrow> None | Some (bm, st4) \<Rightarrow>
      case ReadUInt8 st4 of None \<Rightarrow> None | Some (romn, st5) \<Rightarrow>
      case ReadUInt8 st5 of None \<Rightarrow> None | Some (ramn, st6) \<Rightarrow>
        Some (\<not> ((ucast arb :: uint32) \<ge> m_num_rom_banks c),
              c\<lparr>mbc1 := \<lparr>mbc1_ram_enable = en, mbc1_bank_mode = bm, mbc1_rom_bank_number = romn,
                         mbc1_ram_bank_number = ramn, mbc1_active_rom_bank = arb,
                         mbc1_active_ram_bank = aram\<rparr>\<rparr>,
              st6))"

definition MBC_MBC3_LoadState :: "Cartridge \<Rightarrow> uint8 list \<Rightarrow> (bool \<times> Cartridge \<times> uint8 list) option" where
  "MBC_MBC3_LoadState c st =
     (case ReadUInt8 st of None \<Rightarrow> None | Some (romn, st1) \<Rightarrow>
      case ReadUInt8 st1 of None \<Rightarrow> None | Some (ramn, st2) \<Rightarrow>
      case ReadBool st2 of None \<Rightarrow> None | Some (en, st3) \<Rightarrow>
        Some (\<not> ((ucast romn :: uint32) \<ge> m_num_rom_banks c),
              c\<lparr>mbc3 := (mbc3 c)\<lparr>mbc3_rom_bank_number := romn, mbc3_ram_bank_number := ramn,
                                   mbc3_ram_rtc_enable := en\<rparr>\<rparr>,
              st3))"

definition MBC_MBC5_LoadState :: "Cartridge \<Rightarrow> uint8 list \<Rightarrow> (bool \<times> Cartridge \<times> uint8 list) option" where
  "MBC_MBC5_LoadState c st =
     (case ReadUInt16 st of None \<Rightarrow> None | Some (arb, st1) \<Rightarrow>
      case ReadUInt16 st1 of None \<Rightarrow> None | Some (romn, st2) \<Rightarrow>
      case ReadUInt8 st2 of None \<Rightarrow> None | Some (ramn, st3) \<Rightarrow>
      case ReadBool st3 of None \<Rightarrow> None | Some (en, st4) \<Rightarrow>
        Some (\<not> ((ucast arb :: uint32) \<ge> m_num_rom_banks c),
              c\<lparr>mbc5 := \<lparr>mbc5_active_rom_bank = arb, mbc5_rom_bank_number = romn,
                         mbc5_ram_bank_number = ramn, mbc5_ram_enable = en\<rparr>\<rparr>,
              st4))"

definition LoadState_mbc :: "Cartridge \<Rightarrow> uint8 list \<Rightarrow> (bool \<times> Cartridge \<times> uint8 list) option" where
  "LoadState_mbc c st =
     (case m_mbc c of
        MBC_NONE \<Rightarrow> Some (True, c, st)
      | MBC_MBC1 \<Rightarrow> MBC_MBC1_LoadState c st
      | MBC_MBC3 \<Rightarrow> MBC_MBC3_LoadState c st
      | MBC_MBC5 \<Rightarrow> MBC_MBC5_LoadState c st
      | _ \<Rightarrow> Some (False, c, st))"

text \<open>The external RAM section and the clock section of \<open>LoadState\<close>.\<close>

definition LoadState_ram :: "Cartridge \<Rightarrow> uint8 list \<Rightarrow> (Cartridge \<times> uint8 list) option" where
  "LoadState_ram c st =
     (if m_external_ram_size c > 0
      then (case ReadBytes (unat (m_external_ram_size c)) st of
              None \<Rightarrow> None
            | Some (bs, st1) \<Rightarrow>
                Some (c\<lparr>m_external_ram := bs @ drop (length bs) (m_external_ram c)\<rparr>, st1))
      else Some (c, st))"

definition LoadState_rtc :: "Cartridge \<Rightarrow> uint8 list \<Rightarrow> (Cartridge \<times> uint8 list) option" where
  "LoadState_rtc c st =
     (case ReadBool st of None \<Rightarrow> None | Some (has_timer, st1) \<Rightarrow>
      if has_timer then
        (case ReadUInt64 st1 of None \<Rightarrow> None | Some (bt, st2) \<Rightarrow>
         case ReadUInt16 st2 of None \<Rightarrow> None | Some (od, st3) \<Rightarrow>
         case ReadUInt8 st3 of None \<Rightarrow> None | Some (oh, st4) \<Rightarrow>
         case ReadUInt8 st4 of None \<Rightarrow> None | Some (om, st5) \<Rightarrow>
         case ReadUInt8 st5 of None \<Rightarrow> None | Some (os, st6) \<Rightarrow>
         case ReadBool st6 of None \<Rightarrow> None | Some (act, st7) \<Rightarrow>
           Some (c\<lparr>m_rtc_data := \<lparr>base_time = bt, offset_seconds = os, offset_minutes = om,
                                  offset_hours = oh, offset_days = od, active = act\<rparr>\<rparr>, st7))
      else Some (c, st1))"

text \<open>
  \<open>LoadState\<close>: the result is the rest of the stream on success or the reason of the
  failure, together with the cartridge as the call leaves it. A failure after the first
  two checks leaves behind what the earlier sections have already stored.
\<close>

definition LoadState :: "Cartridge \<Rightarrow> uint8 list \<Rightarrow> (LoadError + uint8 list) \<times> Cartridge" where
  "LoadState c st =
     (case ReadUInt32 st of None \<Rightarrow> (Inl ReadPastEnd, c) | Some (crc, st1) \<Rightarrow>
      if crc \<noteq> m_crc c then (Inl CrcMismatch, c) else
      case ReadUInt32 st1 of None \<Rightarrow> (Inl ReadPastEnd, c) | Some (external_ram_size, st2) \<Rightarrow>
      if m_external_ram_size c \<noteq> external_ram_size then (Inl ExternalRamSizeMismatch, c) else
      case LoadState_ram c st2 of None \<Rightarrow> (Inl ReadPastEnd, c) | Some (c1, st3) \<Rightarrow>
      case LoadState_rtc c1 st3 of None \<Rightarrow> (Inl ReadPastEnd, c1) | Some (c2, st4) \<Rightarrow>
      case ReadUInt32 st4 of None \<Rightarrow> (Inl ReadPastEnd, c2) | Some (ss_mbc, st5) \<Rightarrow>
      if ss_mbc \<noteq> mbc_code (m_mbc c2) then (Inl MbcTypeMismatch, c2) else
      case LoadState_mbc c2 st5 of None \<Rightarrow> (Inl ReadPastEnd, c2) | Some (loadResult, c3, st6) \<Rightarrow>
      if \<not> loadResult then (Inl MbcStateLoadError, c3) else
      case ReadUInt32 st6 of None \<Rightarrow> (Inl ReadPastEnd, c3) | Some (ss_mbc2, st7) \<Rightarrow>
      if ss_mbc2 \<noteq> NOT (mbc_code (m_mbc c3)) then (Inl MbcTrailingTypeMismatch, c3)
      else (Inr st7, c3))"

section \<open>Display: data model (display.cpp)\<close>

text \<open>
  Modelled from the spec: the headers that declare the register block, the sprite
  attribute entry, the interrupt numbers and the members of the display are not among
  the sources. The registers are those of section 3 of the specification, all bytes;
  the attribute entry has the fields that \<open>RenderScanline\<close> reads, its flag bits kept
  decoded; the members of the display are those that \<open>display.cpp\<close> uses, the three
  counters being \<open>uint32\<close> as the signatures of \<open>SetMode\<close> and \<open>SetScanline\<close> say.
\<close>

record Registers =
  LCDC :: uint8
  STAT :: uint8
  SCY :: uint8
  SCX :: uint8
  LY :: uint8
  LYC :: uint8
  BGP :: uint8
  OBP0 :: uint8
  OBP1 :: uint8
  WY :: uint8
  WX :: uint8

record OAM_ENTRY =
  oam_y :: uint8
  oam_x :: uint8
  oam_tile :: uint8
  oam_palette :: bool
  oam_hflip :: bool
  oam_vflip :: bool
  oam_priority :: bool

datatype CPUInterrupt = CPU_INT_VBLANK | CPU_INT_LCDSTAT

record Display =
  m_mode :: uint32
  m_modeClocksRemaining :: uint32
  m_currentScanLine :: uint32
  m_registers :: Registers
  m_vramCopy :: "uint8 list"
  m_oamCopy :: "OAM_ENTRY list"
  m_frameBuffer :: "uint8 list"

text \<open>
  What one call of \<open>Step\<close> can read from outside the display: the OAM and the VRAM of
  the system, and the indeterminate initial contents of the local array
  \<open>active_sprites\<close> of \<open>RenderScanline\<close> (40 entries).
\<close>

record StepInput =
  sys_oam :: "OAM_ENTRY list"
  sys_vram :: "uint8 list"
  stack_sprites :: "OAM_ENTRY list"

text \<open>
  Modelled from the spec: the constants of the missing header, the 160 by 144 pixels of
  the frame buffer.
\<close>

definition SCREEN_WIDTH :: nat where "SCREEN_WIDTH = 160"
definition SCREEN_HEIGHT :: nat where "SCREEN_HEIGHT = 144"

section \<open>Display: mode and scanline\<close>

text \<open>Each function returns the interrupts it requests from the CPU, in order.\<close>

definition SetMode :: "uint32 \<Rightarrow> Display \<Rightarrow> CPUInterrupt list \<times> Display" where
  "SetMode mode d =
     (let r = m_registers d;
          stat = (STAT r AND 0xFC) OR ucast (mode AND 0x3);
          d1 = d\<lparr>m_mode := mode, m_registers := r\<lparr>STAT := stat\<rparr>\<rparr>
      in if mode = 0 then ((if stat AND 0x08 \<noteq> 0 then [CPU_INT_LCDSTAT] else []), d1)
         else if mode = 1 then ((if stat AND 0x10 \<noteq> 0 then [CPU_INT_LCDSTAT] else []) @ [CPU_INT_VBLANK], d1)
         else if mode = 2 then ((if stat AND 0x20 \<noteq> 0 then [CPU_INT_LCDSTAT] else []), d1)
         else ([], d1))"

definition SetScanline :: "uint32 \<Rightarrow> Display \<Rightarrow> CPUInterrupt list \<times> Display" where
  "SetScanline scanline d =
     (let r = m_registers d;
          ly = (ucast (scanline AND 0xFF) :: uint8);
          coincidence_flag = (if STAT r AND 0x04 \<noteq> 0 then LYC r = ly else LYC r \<noteq> ly);
          stat = (STAT r AND 0xFB) OR push_bit 2 (if coincidence_flag then 1 else 0);
          d1 = d\<lparr>m_currentScanLine := scanline, m_registers := r\<lparr>LY := ly, STAT := stat\<rparr>\<rparr>
      in ((if coincidence_flag \<and> stat AND 0x40 \<noteq> 0 then [CPU_INT_LCDSTAT] else []), d1))"

section \<open>Display: rendering a scanline\<close>

definition grayscale_colors :: "uint8 \<Rightarrow> uint32" where
  "grayscale_colors i = [0xFFFFFFFF, 0xFFC0C0C0, 0xFF606060, 0xFF000000] ! unat (i AND 0x3)"

text \<open>
  \<open>ReadTile\<close>: with tile numbers and rows as the callers pass them, the two bytes read
  lie inside the 8 KiB of the VRAM copy.
\<close>

definition ReadTile :: "uint8 list \<Rightarrow> bool \<Rightarrow> uint16 \<Rightarrow> uint8 \<Rightarrow> uint8 \<Rightarrow> uint8" where
  "ReadTile vram high_tileset tile x y =
     (let tilemem = (if high_tileset then 0x0800 else 0x0000) + unat tile * 16;
          byteIndex = unat y * 2;
          bitIndex = unat x mod 8;
          lo = drop_bit (7 - bitIndex) (vram ! (tilemem + byteIndex)) AND 0x1;
          colourBit = lo OR push_bit 1 (drop_bit (7 - bitIndex) (vram ! (tilemem + byteIndex + 1)) AND 0x1)
      in colourBit AND 0x3)"

text \<open>
  The sprites of the line. The culling loop keeps, in OAM order, the entries that are
  on screen and whose rows include the line; the kept entries are the first elements of
  \<open>active_sprites\<close>, whose other elements keep their initial contents. The library sort
  \<open>Y_qsort\<close> is not among the sources; with the comparison on \<open>x\<close> that the code passes
  it is taken to be the stable sort by \<open>x\<close> of section 4.6 of the specification. The
  count becomes \<open>Max(num_active_sprites, 10)\<close>.
\<close>

definition sprite_on_line :: "uint8 \<Rightarrow> uint8 \<Rightarrow> OAM_ENTRY \<Rightarrow> bool" where
  "sprite_on_line SPRITE_HEIGHT LINE e =
     (if oam_x e = 0 \<or> oam_y e = 0 \<or> oam_x e \<ge> 168 \<or> oam_y e \<ge> 160 then False
      else (let sprite_start_y = uint (oam_y e) - 16;
                sprite_end_y = sprite_start_y + uint SPRITE_HEIGHT - 1
            in \<not> (uint LINE < sprite_start_y \<or> uint LINE > sprite_end_y)))"

definition cull_sprites :: "uint8 \<Rightarrow> uint8 \<Rightarrow> OAM_ENTRY list \<Rightarrow> OAM_ENTRY list" where
  "cull_sprites SPRITE_HEIGHT LINE oam = filter (sprite_on_line SPRITE_HEIGHT LINE) (take 40 oam)"

definition active_sprites :: "OAM_ENTRY list \<Rightarrow> uint8 \<Rightarrow> uint8 \<Rightarrow> OAM_ENTRY list \<Rightarrow> OAM_ENTRY list" where
  "active_sprites stack SPRITE_HEIGHT LINE oam =
     (let culled = cull_sprites SPRITE_HEIGHT LINE oam;
          num_active_sprites = length culled
      in if num_active_sprites > 0
         then take (max num_active_sprites 10)
                (sort_key (\<lambda>e. unat (oam_x e)) culled @ drop num_active_sprites stack)
         else [])"

text \<open>
  The inner loop over the sprites of one pixel: the first sprite whose columns include
  the pixel decides; \<open>color\<close> is the background colour computed before.
\<close>

definition sprite_color :: "Registers \<Rightarrow> uint8 list \<Rightarrow> uint8 \<Rightarrow> uint8 \<Rightarrow> nat \<Rightarrow> OAM_ENTRY \<Rightarrow> uint32" where
  "sprite_color r vram SPRITE_SIZE_BIT LINE pixel_x sprite =
     (let SPRITE_HEIGHT = 8 + SPRITE_SIZE_BIT * 8;
          sprite_start_x = uint (oam_x sprite) - 8;
          sprite_start_y = uint (oam_y sprite) - 16;
          tile_x0 = int pixel_x - sprite_start_x;
          tile_y0 = uint LINE - sprite_start_y;
          tile_x = (if oam_hflip sprite then 15 - tile_x0 else tile_x0);
          tile_y = (if oam_vflip sprite then uint SPRITE_HEIGHT - tile_y0 else tile_y0);
          tile_index = (if SPRITE_SIZE_BIT \<noteq> 0
                        then (if tile_y < 8 then ucast (oam_tile sprite AND 0xFE)
                              else ucast (oam_tile sprite OR 0x01))
                        else (ucast (oam_tile sprite) :: uint16));
          palette_index = ReadTile vram False tile_index (word_of_int tile_x) (word_of_int tile_y);
          obp = (if oam_palette sprite then OBP1 r else OBP0 r)
      in if palette_index = 0 then 0xFF555555
         else grayscale_colors (drop_bit (2 * unat palette_index) obp))"

fun sprite_pixel ::
    "Registers \<Rightarrow> uint8 list \<Rightarrow> uint8 \<Rightarrow> uint8 \<Rightarrow> nat \<Rightarrow> uint8 \<Rightarrow> uint32 \<Rightarrow> OAM_ENTRY list \<Rightarrow> uint32" where
  "sprite_pixel r vram SPRITE_SIZE_BIT LINE pixel_x bgcolor_index color [] = color"
| "sprite_pixel r vram SPRITE_SIZE_BIT LINE pixel_x bgcolor_index color (sprite # rest) =
     (let sprite_start_x = uint (oam_x sprite) - 8;
          sprite_end_x = sprite_start_x + 7
      in if int pixel_x < sprite_start_x \<or> int pixel_x > sprite_end_x
         then sprite_pixel r vram SPRITE_SIZE_BIT LINE pixel_x bgcolor_index color rest
         else if oam_priority sprite \<and> bgcolor_index \<noteq> 0 then color
         else sprite_color r vram SPRITE_SIZE_BIT LINE pixel_x sprite)"

text \<open>The background position that the pixel loop carries from pixel to pixel.\<close>

record BGPos =
  bg_x :: uint8
  lineOffset :: uint8
  bg_tile :: uint16

definition PutPixel :: "nat \<Rightarrow> nat \<Rightarrow> uint32 \<Rightarrow> uint8 list \<Rightarrow> uint8 list" where
  "PutPixel x y color fb =
     (let base = (y * SCREEN_WIDTH + x) * 4
      in fb[base := ucast (color AND 0xFF),
            base + 1 := ucast (drop_bit 8 color AND 0xFF),
            base + 2 := ucast (drop_bit 16 color AND 0xFF),
            base + 3 := ucast (drop_bit 24 color AND 0xFF)])"

text \<open>
  One iteration of the pixel loop: the colour of the pixel and the background position
  for the next pixel.
\<close>

definition render_pixel :: "Display \<Rightarrow> OAM_ENTRY list \<Rightarrow> nat \<Rightarrow> BGPos \<Rightarrow> uint32 \<times> BGPos" where
  "render_pixel d sprites pixel_x p =
     (let r = m_registers d;
          VRAM = m_vramCopy d;
          BGENABLE = (LCDC r AND 0x01 \<noteq> 0);
          BGMAPBASE = (if LCDC r AND 0x08 \<noteq> 0 then 0x1C00 else 0x1800 :: nat);
          BGTILESET_SELECT = (LCDC r AND 0x10 \<noteq> 0);
          SPRITE_SIZE_BIT = drop_bit 2 (LCDC r) AND 0x1;
          SPRITE_ENABLE = (LCDC r AND 0x02 \<noteq> 0);
          BGMAPOFFSET = unat (push_bit 5 (drop_bit 3 ((ucast (LY r) + ucast (SCY r) :: uint16) AND 255)));
          bg_y = (LY r + SCY r) AND 7;
          bgcolor_index = (if BGENABLE then ReadTile VRAM (\<not> BGTILESET_SELECT) (bg_tile p) (bg_x p) bg_y else 0);
          color0 = (if BGENABLE then grayscale_colors (drop_bit (2 * unat bgcolor_index) (BGP r))
                    else 0xFFFFFFFF);
          p1 = (if BGENABLE
                then (if bg_x p + 1 = 8
                      then (let lo = (lineOffset p + 1) AND 31
                            in \<lparr>bg_x = 0, lineOffset = lo,
                                bg_tile = ucast (VRAM ! (BGMAPBASE + BGMAPOFFSET + unat lo))\<rparr>)
                      else p\<lparr>bg_x := bg_x p + 1\<rparr>)
                else p);
          color = (if SPRITE_ENABLE
                   then sprite_pixel r VRAM SPRITE_SIZE_BIT (LY r) pixel_x bgcolor_index color0 sprites
                   else color0)
      in (color, p1))"

fun render_pixels :: "Display \<Rightarrow> OAM_ENTRY list \<Rightarrow> nat \<Rightarrow> nat \<Rightarrow> BGPos \<Rightarrow> uint8 list \<Rightarrow> uint8 list" where
  "render_pixels d sprites 0 pixel_x p fb = fb"
| "render_pixels d sprites (Suc n) pixel_x p fb =
     (let (color, p1) = render_pixel d sprites pixel_x p
      in render_pixels d sprites n (pixel_x + 1) p1 (PutPixel pixel_x (unat (LY (m_registers d))) color fb))"

definition RenderScanline :: "OAM_ENTRY list \<Rightarrow> Display \<Rightarrow> Display" where
  "RenderScanline stack d =
     (let r = m_registers d;
          line_start = unat (m_currentScanLine d) * SCREEN_WIDTH * 4;
          fb0 = take line_start (m_frameBuffer d) @ replicate (SCREEN_WIDTH * 4) 0xFF @
                drop (line_start + SCREEN_WIDTH * 4) (m_frameBuffer d)
      in if LCDC r AND 0x80 = 0 then d\<lparr>m_frameBuffer := fb0\<rparr>
         else
           (let VRAM = m_vramCopy d;
                BGMAPBASE = (if LCDC r AND 0x08 \<noteq> 0 then 0x1C00 else 0x1800 :: nat);
                SPRITE_SIZE_BIT = drop_bit 2 (LCDC r) AND 0x1;
                SPRITE_HEIGHT = 8 + SPRITE_SIZE_BIT * 8;
                SPRITE_ENABLE = (LCDC r AND 0x02 \<noteq> 0);
                BGMAPOFFSET = unat (push_bit 5 (drop_bit 3 ((ucast (LY r) + ucast (SCY r) :: uint16) AND 255)));
                lo = drop_bit 3 (SCX r);
                p0 = \<lparr>bg_x = SCX r AND 7, lineOffset = lo,
                      bg_tile = ucast (VRAM ! (BGMAPBASE + BGMAPOFFSET + unat lo))\<rparr>;
                sprites = (if SPRITE_ENABLE
                           then active_sprites stack SPRITE_HEIGHT (LY r) (m_oamCopy d) else [])
            in d\<lparr>m_frameBuffer := render_pixels d sprites 160 0 p0 fb0\<rparr>))"

section \<open>Display: reset and the per-cycle step\<close>

text \<open>
  \<open>Reset\<close> of the display overwrites every member, so the state after it is a constant:
  the frame buffer filled with 0xFF, registers and copies zeroed, then \<open>SetMode(2)\<close>,
  80 clocks and scanline 0.
\<close>

definition zero_OAM_ENTRY :: OAM_ENTRY where
  "zero_OAM_ENTRY = \<lparr>oam_y = 0, oam_x = 0, oam_tile = 0, oam_palette = False, oam_hflip = False,
                      oam_vflip = False, oam_priority = False\<rparr>"

definition zero_Registers :: Registers where
  "zero_Registers = \<lparr>LCDC = 0, STAT = 0, SCY = 0, SCX = 0, LY = 0, LYC = 0, BGP = 0, OBP0 = 0,
                      OBP1 = 0, WY = 0, WX = 0\<rparr>"

definition Display_Reset :: "CPUInterrupt list \<times> Display" where
  "Display_Reset =
     (let d0 = \<lparr>m_mode = 0, m_modeClocksRemaining = 0, m_currentScanLine = 0,
                m_registers = zero_Registers,
                m_vramCopy = replicate 8192 0,
                m_oamCopy = replicate 40 zero_OAM_ENTRY,
                m_frameBuffer = replicate (SCREEN_WIDTH * SCREEN_HEIGHT * 4) 0xFF\<rparr>;
          (irqs, d1) = SetMode 2 d0
      in (irqs, d1\<lparr>m_modeClocksRemaining := 80, m_currentScanLine := 0\<rparr>))"

text \<open>
  \<open>Step\<close> returns \<open>pushFrameBuffer\<close> and the interrupts requested during the call. The
  copies of OAM and VRAM take the whole of the system's arrays, which have the sizes of
  the copies.
\<close>

definition Step :: "StepInput \<Rightarrow> Display \<Rightarrow> (bool \<times> CPUInterrupt list) \<times> Display" where
  "Step inp d =
     (if m_mode d = 2 then
        (let d1 = d\<lparr>m_modeClocksRemaining := m_modeClocksRemaining d - 1\<rparr>
         in if m_modeClocksRemaining d1 = 0
            then (let d2 = d1\<lparr>m_oamCopy := sys_oam inp, m_modeClocksRemaining := 172\<rparr>;
                      (irqs, d3) = SetMode 3 d2
                  in ((False, irqs), d3))
            else ((False, []), d1))
      else if m_mode d = 3 then
        (let d1 = d\<lparr>m_modeClocksRemaining := m_modeClocksRemaining d - 1\<rparr>
         in if m_modeClocksRemaining d1 = 0
            then (let d2 = d1\<lparr>m_vramCopy := sys_vram inp\<rparr>;
                      (irqs, d3) = SetMode 0 d2;
                      d4 = d3\<lparr>m_modeClocksRemaining := 204\<rparr>
                  in ((False, irqs), RenderScanline (stack_sprites inp) d4))
            else ((False, []), d1))
      else if m_mode d = 0 then
        (let d1 = d\<lparr>m_modeClocksRemaining := m_modeClocksRemaining d - 1\<rparr>
         in if m_modeClocksRemaining d1 = 0
            then (let (irqs1, d2) = SetScanline (m_currentScanLine d1 + 1) d1
                  in if m_currentScanLine d2 = 144
                     then (let (irqs2, d3) = SetMode 1 d2
                           in ((True, irqs1 @ irqs2), d3\<lparr>m_modeClocksRemaining := 456\<rparr>))
                     else (let (irqs2, d3) = SetMode 2 d2
                           in ((False, irqs1 @ irqs2), d3\<lparr>m_modeClocksRemaining := 80\<rparr>)))
            else ((False, []), d1))
      else if m_mode d = 1 then
        (let d1 = d\<lparr>m_modeClocksRemaining := m_modeClocksRemaining d - 1\<rparr>
         in if m_modeClocksRemaining d1 = 0
            then (let (irqs1, d2) = SetScanline (m_currentScanLine d1 + 1) d1
                  in if m_currentScanLine d2 = 154
                     then (let (irqs2, d3) = SetMode 2 d2;
                               (irqs3, d4) = SetScanline 0 d3
                           in ((False, irqs1 @ irqs2 @ irqs3), d4\<lparr>m_modeClocksRemaining := 80\<rparr>))
                     else ((False, irqs1), d2\<lparr>m_modeClocksRemaining := 456\<rparr>))
            else ((False, []), d1))
      else ((False, []), d))"

text \<open>
  A run of consecutive calls of \<open>Step\<close>, one per element of the input list: the results
  of the calls in order, and the display after the last call.
\<close>

fun Steps :: "StepInput list \<Rightarrow> Display \<Rightarrow> (bool \<times> CPUInterrupt list) list \<times> Display" where
  "Steps [] d = ([], d)"
| "Steps (inp # inps) d =
     (let (out, d1) = Step inp d;
          (outs, d2) = Steps inps d1
      in (out # outs, d2))"

text \<open>
  The timing part of the display state, and the timing the specification gives for the
  T-cycle \<open>t\<close> counted from reset: 154 lines of 456 cycles; on lines 0 to 143 mode 2 for
  80 cycles, mode 3 for 172 and mode 0 for 204; on lines 144 to 153 mode 1.
\<close>

definition timing :: "Display \<Rightarrow> uint32 \<times> uint32 \<times> uint32" where
  "timing d = (m_mode d, m_modeClocksRemaining d, m_currentScanLine d)"

definition phase_nat :: "nat \<Rightarrow> nat \<times> nat \<times> nat" where
  "phase_nat t =
     (let l = (t div 456) mod 154; x = t mod 456
      in if l < 144
         then (if x < 80 then (2, 80 - x, l)
               else if x < 252 then (3, 252 - x, l)
               else (0, 456 - x, l))
         else (1, 456 - x, l))"

definition enc :: "nat \<times> nat \<times> nat \<Rightarrow> uint32 \<times> uint32 \<times> uint32" where
  "enc = (\<lambda>(m, k, s). (of_nat m, of_nat k, of_nat s))"

definition phase :: "nat \<Rightarrow> uint32 \<times> uint32 \<times> uint32" where
  "phase t = enc (phase_nat t)"

text \<open>
  The transition table of the specification (section 4.5) on mode, clocks remaining and
  line, with the frame-ready flag and the number of VBlank interrupt requests of the
  step.
\<close>

definition spec_step :: "nat \<times> nat \<times> nat \<Rightarrow> (bool \<times> nat) \<times> (nat \<times> nat \<times> nat)" where
  "spec_step = (\<lambda>(m, k, s).
     if k \<noteq> 1 then ((False, 0), (m, k - 1, s))
     else if m = 2 then ((False, 0), (3, 172, s))
     else if m = 3 then ((False, 0), (0, 204, s))
     else if m = 0 then (if s = 143 then ((True, 1), (1, 456, 144)) else ((False, 0), (2, 80, s + 1)))
     else (if s = 153 then ((False, 0), (2, 80, 0)) else ((False, 0), (1, 456, s + 1))))"

definition vblank_requests :: "bool \<times> CPUInterrupt list \<Rightarrow> nat" where
  "vblank_requests out = count_list (snd out) CPU_INT_VBLANK"

section \<open>Example inputs\<close>

text \<open>
  Cartridges as the constructor and the header parser leave them, used as concrete
  inputs below: an MBC1 cartridge of 128 banks, an MBC5 cartridge of 256 banks and an
  MBC3 cartridge with timer and battery of 64 banks, none with external RAM. The ROM
  image of each is zero except for the type code and the ROM size code of its header
  (offsets 0x0147 and 0x0148 of bank 0).
\<close>

definition example_rom :: "uint8 \<Rightarrow> uint8 \<Rightarrow> nat \<Rightarrow> uint8 list list" where
  "example_rom type_code rom_size_code n =
     (replicate 0x147 0 @ [type_code, rom_size_code, 0] @ replicate (16384 - 0x14A) 0) #
     replicate (n - 1) (replicate 16384 0)"

definition example_MBC1 :: Cartridge where
  "example_MBC1 =
     new_Cartridge 0
       \<lparr>ti_id = 0x01, ti_mbc = MBC_MBC1, ti_ram = False, ti_battery = False, ti_timer = False,
        ti_rumble = False\<rparr> (example_rom 0x01 0x06 128) 128 0"

definition example_MBC5 :: Cartridge where
  "example_MBC5 =
     new_Cartridge 0
       \<lparr>ti_id = 0x19, ti_mbc = MBC_MBC5, ti_ram = False, ti_battery = False, ti_timer = False,
        ti_rumble = False\<rparr> (example_rom 0x19 0x07 256) 256 0"

definition example_MBC3 :: Cartridge where
  "example_MBC3 =
     new_Cartridge 0
       \<lparr>ti_id = 0x0F, ti_mbc = MBC_MBC3, ti_ram = False, ti_battery = True, ti_timer = True,
        ti_rumble = False\<rparr> (example_rom 0x0F 0x05 64) 64 0"

text \<open>
  The MBC3 example after reset, and after a latching write (0x6000 <- 1) at host time
  3661 with the clock base at 0. The cartridge as a fresh start of the emulator has it
  is the reset one.
\<close>

definition example_MBC3_reset :: Cartridge where
  "example_MBC3_reset = MBC_MBC3_Reset example_MBC3"

definition example_MBC3_latched :: Cartridge where
  "example_MBC3_latched = MBC_MBC3_Write 3661 0x6000 0x01 example_MBC3_reset"


text \<open>
  Displays used as concrete inputs. The first is the reset display after the CPU has
  written 0x42 to STAT (coincidence interrupt enabled, mode bits as they are) and 1 to LYC.
  The second renders line 0 with the display and sprites enabled and the background
  off (LCDC = 0x82), object palette 0 the identity (0xE4), a VRAM copy of all ones (every
  tile pixel has colour 3), and eleven 8x8 sprites on the line at X = 11, 10, ..., 1 in
  OAM order, the other 29 entries zero.
\<close>

definition example_Display_lyc :: Display where
  "example_Display_lyc =
     (snd Display_Reset)\<lparr>m_registers := (m_registers (snd Display_Reset))\<lparr>STAT := 0x42, LYC := 1\<rparr>\<rparr>"

definition sprite_at :: "uint8 \<Rightarrow> OAM_ENTRY" where
  "sprite_at x = zero_OAM_ENTRY\<lparr>oam_y := 16, oam_x := x\<rparr>"

definition example_oam :: "OAM_ENTRY list" where
  "example_oam =
     [sprite_at 11, sprite_at 10, sprite_at 9, sprite_at 8, sprite_at 7, sprite_at 6, sprite_at 5,
      sprite_at 4, sprite_at 3, sprite_at 2, sprite_at 1] @ replicate 29 zero_OAM_ENTRY"

definition example_Display_sprites :: Display where
  "example_Display_sprites =
     (snd Display_Reset)\<lparr>m_registers := zero_Registers\<lparr>LCDC := 0x82, OBP0 := 0xE4\<rparr>,
                          m_vramCopy := replicate 8192 0xFF,
                          m_oamCopy := example_oam\<rparr>"

definition example_stack :: "OAM_ENTRY list" where
  "example_stack = replicate 40 zero_OAM_ENTRY"

definition example_BGPos :: BGPos where
  "example_BGPos = \<lparr>bg_x = 0, lineOffset = 0, bg_tile = 0xFF\<rparr>"

text \<open>An input for 70224 calls of \<open>Step\<close>: system memory all zero at every call.\<close>

definition example_StepInput :: StepInput where
  "example_StepInput =
     \<lparr>sys_oam = replicate 40 zero_OAM_ENTRY, sys_vram = replicate 8192 0,
      stack_sprites = replicate 40 zero_OAM_ENTRY\<rparr>"

definition example_inputs :: "StepInput list" where
  "example_inputs = replicate 70224 example_StepInput"



section \<open>Address windows\<close>

text \<open>
  The controllers dispatch on \<open>address & 0xF000\<close>; the lemmas below relate the value of
  that expression to the 4 KiB page of the address.
\<close>

lemma sel_decode: "(a :: uint16) AND 0xF000 = push_bit 12 (drop_bit 12 a)"
proof -
  have e: "(0xF000 :: uint16) = NOT (mask 12)" by (simp add: mask_eq_exp_minus_1)
  show ?thesis unfolding e
    by (rule bit_word_eqI) (auto simp: bit_simps)
qed

lemma sel_unat: "unat ((a :: uint16) AND 0xF000) = (unat a div 4096) * 4096"
proof -
  have "unat a < 65536" using unsigned_less [of a, where 'a=nat] by simp
  then have "(unat a div 4096) * 4096 < 65536" by arith
  then show ?thesis
    unfolding sel_decode
    by (simp only: unsigned_push_bit_eq unat_drop_bit_eq)
       (simp add: drop_bit_eq_div push_bit_eq_mult take_bit_eq_mod)
qed

lemma sel_0: "((a :: uint16) AND 0xF000 = 0x0000) = (unat a div 4096 = 0)"
  by (simp add: word_unat_eq_iff sel_unat)

lemma sel_1: "((a :: uint16) AND 0xF000 = 0x1000) = (unat a div 4096 = 1)"
  by (simp add: word_unat_eq_iff sel_unat)

lemma sel_2: "((a :: uint16) AND 0xF000 = 0x2000) = (unat a div 4096 = 2)"
  by (simp add: word_unat_eq_iff sel_unat)

lemma sel_3: "((a :: uint16) AND 0xF000 = 0x3000) = (unat a div 4096 = 3)"
  by (simp add: word_unat_eq_iff sel_unat)

lemma sel_4: "((a :: uint16) AND 0xF000 = 0x4000) = (unat a div 4096 = 4)"
  by (simp add: word_unat_eq_iff sel_unat)

lemma sel_5: "((a :: uint16) AND 0xF000 = 0x5000) = (unat a div 4096 = 5)"
  by (simp add: word_unat_eq_iff sel_unat)

lemma sel_6: "((a :: uint16) AND 0xF000 = 0x6000) = (unat a div 4096 = 6)"
  by (simp add: word_unat_eq_iff sel_unat)

lemma sel_7: "((a :: uint16) AND 0xF000 = 0x7000) = (unat a div 4096 = 7)"
  by (simp add: word_unat_eq_iff sel_unat)

lemma sel_8: "((a :: uint16) AND 0xF000 = 0x8000) = (unat a div 4096 = 8)"
  by (simp add: word_unat_eq_iff sel_unat)

lemma sel_9: "((a :: uint16) AND 0xF000 = 0x9000) = (unat a div 4096 = 9)"
  by (simp add: word_unat_eq_iff sel_unat)

lemma sel_A: "((a :: uint16) AND 0xF000 = 0xA000) = (unat a div 4096 = 10)"
  by (simp add: word_unat_eq_iff sel_unat)

lemma sel_B: "((a :: uint16) AND 0xF000 = 0xB000) = (unat a div 4096 = 11)"
  by (simp add: word_unat_eq_iff sel_unat)

lemma sel_C: "((a :: uint16) AND 0xF000 = 0xC000) = (unat a div 4096 = 12)"
  by (simp add: word_unat_eq_iff sel_unat)

lemma sel_D: "((a :: uint16) AND 0xF000 = 0xD000) = (unat a div 4096 = 13)"
  by (simp add: word_unat_eq_iff sel_unat)

lemma sel_E: "((a :: uint16) AND 0xF000 = 0xE000) = (unat a div 4096 = 14)"
  by (simp add: word_unat_eq_iff sel_unat)

lemma sel_F: "((a :: uint16) AND 0xF000 = 0xF000) = (unat a div 4096 = 15)"
  by (simp add: word_unat_eq_iff sel_unat)

lemmas sel_simps =
  sel_0 sel_1 sel_2 sel_3 sel_4 sel_5 sel_6 sel_7 sel_8 sel_9 sel_A sel_B sel_C sel_D sel_E sel_F

lemma window_0: "(a :: uint16) \<le> 0x1FFF \<Longrightarrow> unat a div 4096 = 0 \<or> unat a div 4096 = 1"
  by (simp add: word_le_nat_alt) arith

lemma window_2:
  "0x2000 \<le> (a :: uint16) \<Longrightarrow> a \<le> 0x3FFF \<Longrightarrow> unat a div 4096 = 2 \<or> unat a div 4096 = 3"
  by (simp add: word_le_nat_alt) arith

lemma window_6:
  "0x6000 \<le> (a :: uint16) \<Longrightarrow> a \<le> 0x7FFF \<Longrightarrow> unat a div 4096 = 6 \<or> unat a div 4096 = 7"
  by (simp add: word_le_nat_alt) arith

section \<open>MBC1 bank selection\<close>

lemma MBC1_update_mode0:
  "mbc1_bank_mode (mbc1 c) = 0 \<Longrightarrow>
   mbc1_active_rom_bank (mbc1 (MBC_MBC1_UpdateActiveBanks c)) =
     (let b = push_bit 5 (mbc1_ram_bank_number (mbc1 c)) OR (mbc1_rom_bank_number (mbc1 c) AND 0x1F);
          b' = (if b = 0x00 \<or> b = 0x20 \<or> b = 0x40 \<or> b = 0x60 then b + 1 else b)
      in if m_num_rom_banks c \<le> ucast b' then ucast (m_num_rom_banks c) - 1 else b')"
  by (simp add: MBC_MBC1_UpdateActiveBanks_def Let_def)

lemma MBC1_Reset_fields:
  "mbc1_bank_mode (mbc1 (MBC_MBC1_Reset c)) = 0"
  "mbc1_ram_bank_number (mbc1 (MBC_MBC1_Reset c)) = 0"
  "m_num_rom_banks (MBC_MBC1_Reset c) = m_num_rom_banks c"
  by (simp_all add: MBC_MBC1_Reset_def MBC_MBC1_UpdateActiveBanks_def Let_def)

lemma MBC1_update_fields:
  "mbc1_bank_mode (mbc1 (MBC_MBC1_UpdateActiveBanks c)) = mbc1_bank_mode (mbc1 c)"
  "mbc1_ram_bank_number (mbc1 (MBC_MBC1_UpdateActiveBanks c)) = mbc1_ram_bank_number (mbc1 c)"
  "mbc1_rom_bank_number (mbc1 (MBC_MBC1_UpdateActiveBanks c)) = mbc1_rom_bank_number (mbc1 c)"
  "m_num_rom_banks (MBC_MBC1_UpdateActiveBanks c) = m_num_rom_banks c"
  by (simp_all add: MBC_MBC1_UpdateActiveBanks_def Let_def)

lemma MBC1_write_rom_window:
  "0x2000 \<le> a \<Longrightarrow> a \<le> 0x3FFF \<Longrightarrow>
   MBC_MBC1_Write a v c = MBC_MBC1_UpdateActiveBanks (c\<lparr>mbc1 := (mbc1 c)\<lparr>mbc1_rom_bank_number := v\<rparr>\<rparr>)"
  using window_2 [of a]
  by (auto simp: MBC_MBC1_Write_def sel_simps Let_def)

lemma one_below: "2 \<le> (n :: uint32) \<Longrightarrow> \<not> n \<le> 1"
  by (simp add: word_le_nat_alt)

text \<open>
  C2, as the code has it. After reset of an MBC1 cartridge with at least two banks,
  a write of 0x00 anywhere in 0x2000-0x3FFF selects bank 1, and the sequence
  0x2000 <- 0x20, 0x4000 <- 0x00, 0x6000 <- 0x00 selects bank 1 as well (not 0x21: the
  low five bits of 0x20 are 0 and the upper register holds 0). In bank mode 0 the bank
  selected by a write of \<open>v\<close> to that window is
  \<open>(ram_bank_number << 5) | (v & 0x1F)\<close> in 8 bits, incremented by 1 when it is
  0x00, 0x20, 0x40 or 0x60, and replaced by \<open>(uint8)m_num_rom_banks - 1\<close> when it is not
  below the bank count.
\<close>

theorem MBC1_bank_selection:
  assumes n: "2 \<le> m_num_rom_banks c" and a: "0x2000 \<le> a" "a \<le> 0x3FFF"
    and m: "mbc1_bank_mode (mbc1 c) = 0"
  shows "mbc1_active_rom_bank (mbc1 (MBC_MBC1_Write a 0x00 (MBC_MBC1_Reset c))) = 1 \<and>
         mbc1_active_rom_bank (mbc1 (MBC_MBC1_Write 0x6000 0x00 (MBC_MBC1_Write 0x4000 0x00
            (MBC_MBC1_Write 0x2000 0x20 (MBC_MBC1_Reset c))))) = 1 \<and>
         mbc1_active_rom_bank (mbc1 (MBC_MBC1_Write a v c)) =
           (let b = push_bit 5 (mbc1_ram_bank_number (mbc1 c)) OR (v AND 0x1F);
                b' = (if b = 0x00 \<or> b = 0x20 \<or> b = 0x40 \<or> b = 0x60 then b + 1 else b)
            in if m_num_rom_banks c \<le> ucast b' then ucast (m_num_rom_banks c) - 1 else b')"
proof (intro conjI)
  show "mbc1_active_rom_bank (mbc1 (MBC_MBC1_Write a 0x00 (MBC_MBC1_Reset c))) = 1"
    using n by (simp add: MBC1_write_rom_window [OF a] MBC1_update_mode0 MBC1_Reset_fields one_below)
next
  show "mbc1_active_rom_bank (mbc1 (MBC_MBC1_Write 0x6000 0x00 (MBC_MBC1_Write 0x4000 0x00
            (MBC_MBC1_Write 0x2000 0x20 (MBC_MBC1_Reset c))))) = 1"
    using n
    by (simp add: MBC_MBC1_Write_def MBC1_update_mode0 MBC1_Reset_fields MBC1_update_fields one_below)
next
  show "mbc1_active_rom_bank (mbc1 (MBC_MBC1_Write a v c)) =
           (let b = push_bit 5 (mbc1_ram_bank_number (mbc1 c)) OR (v AND 0x1F);
                b' = (if b = 0x00 \<or> b = 0x20 \<or> b = 0x40 \<or> b = 0x60 then b + 1 else b)
            in if m_num_rom_banks c \<le> ucast b' then ucast (m_num_rom_banks c) - 1 else b')"
    using m by (simp add: MBC1_write_rom_window [OF a] MBC1_update_mode0 Let_def)
qed

text \<open>The theorem at the 128-bank example cartridge, address 0x2000 and value 7.\<close>

theorem MBC1_bank_selection_witness:
  "(2 :: uint32) \<le> m_num_rom_banks example_MBC1 \<and>
   (0x2000 :: uint16) \<le> 0x2000 \<and> (0x2000 :: uint16) \<le> 0x3FFF \<and>
   mbc1_bank_mode (mbc1 example_MBC1) = 0 \<and>
   mbc1_active_rom_bank (mbc1 (MBC_MBC1_Write 0x2000 0x00 (MBC_MBC1_Reset example_MBC1))) = 1 \<and>
   mbc1_active_rom_bank (mbc1 (MBC_MBC1_Write 0x6000 0x00 (MBC_MBC1_Write 0x4000 0x00
            (MBC_MBC1_Write 0x2000 0x20 (MBC_MBC1_Reset example_MBC1))))) = 1 \<and>
   mbc1_active_rom_bank (mbc1 (MBC_MBC1_Write 0x2000 0x07 example_MBC1)) = 0x07"
proof -
  have h: "(2 :: uint32) \<le> m_num_rom_banks example_MBC1" "(0x2000 :: uint16) \<le> 0x2000"
    "(0x2000 :: uint16) \<le> 0x3FFF" "mbc1_bank_mode (mbc1 example_MBC1) = 0"
    by (simp_all add: example_MBC1_def new_Cartridge_def)
  have r: "mbc1_ram_bank_number (mbc1 example_MBC1) = 0" "m_num_rom_banks example_MBC1 = 128"
    by (simp_all add: example_MBC1_def new_Cartridge_def)
  show ?thesis
    using h MBC1_bank_selection [OF h, of "0x07"] by (simp add: r)
qed

text \<open>
  The claim as the specification states it fails: on the 128-bank cartridge the sequence
  0x2000 <- 0x20, 0x4000 <- 0x00, 0x6000 <- 0x00 does not select bank 0x21.
\<close>

theorem MBC1_sequence_0x21_counterexample:
  "mbc1_active_rom_bank (mbc1 (MBC_MBC1_Write 0x6000 0x00 (MBC_MBC1_Write 0x4000 0x00
      (MBC_MBC1_Write 0x2000 0x20 (MBC_MBC1_Reset example_MBC1))))) \<noteq> 0x21"
  by (simp add: MBC_MBC1_Write_def MBC1_update_mode0 MBC1_Reset_fields MBC1_update_fields
      example_MBC1_def new_Cartridge_def)

section \<open>MBC1 RAM enable\<close>

text \<open>
  C8, as the code has it. After a write of \<open>v\<close> to 0x0000-0x1FFF of an MBC1 cartridge,
  \<open>ram_enable\<close> holds if and only if \<open>v\<close> is 0x0A: the whole byte is compared, so a
  value such as 0x1A, whose low nibble is 0x0A, disables RAM.
\<close>

theorem MBC1_ram_enable_iff_0A:
  "a \<le> 0x1FFF \<Longrightarrow> mbc1_ram_enable (mbc1 (MBC_MBC1_Write a v c)) = (v = 0x0A)"
  using window_0 [of a]
  by (auto simp: MBC_MBC1_Write_def sel_simps Let_def SaveRAM_def)

theorem MBC1_ram_enable_iff_0A_witness:
  "(0x0000 :: uint16) \<le> 0x1FFF \<and>
   mbc1_ram_enable (mbc1 (MBC_MBC1_Write 0x0000 0x0A (MBC_MBC1_Reset example_MBC1))) =
     ((0x0A :: uint8) = 0x0A)"
  using MBC1_ram_enable_iff_0A [of "0x0000" "0x0A" "MBC_MBC1_Reset example_MBC1"] by simp

text \<open>The claim as stated fails at the value 0x1A, whose low nibble is 0x0A.\<close>

theorem MBC1_ram_enable_low_nibble_counterexample:
  "\<not> (mbc1_ram_enable (mbc1 (MBC_MBC1_Write 0x0000 0x1A (MBC_MBC1_Reset example_MBC1)))
       \<longleftrightarrow> (0x1A :: uint8) AND 0x0F = 0x0A)"
  by (simp add: MBC_MBC1_Write_def Let_def SaveRAM_def)

section \<open>MBC5: the clamp of the active bank\<close>

text \<open>
  C9, at the input where the code breaks it. On an MBC5 cartridge of 256 banks, after
  reset, the write 0x3000 <- 0x01 programs selector 0x101; the clamp computes
  \<open>(uint8)256 - 1\<close>, which is -1, and stores 0xFFFF into the 16-bit active bank, so the
  active bank is not below the bank count.
\<close>

theorem MBC5_clamp_256_banks_out_of_range:
  "mbc5_active_rom_bank (mbc5 (CPUWrite now 0x3000 0x01 (MBC_MBC5_Reset example_MBC5))) = 0xFFFF \<and>
   m_num_rom_banks (CPUWrite now 0x3000 0x01 (MBC_MBC5_Reset example_MBC5)) = 256 \<and>
   \<not> (unat (mbc5_active_rom_bank (mbc5 (CPUWrite now 0x3000 0x01 (MBC_MBC5_Reset example_MBC5))))
       < unat (m_num_rom_banks (CPUWrite now 0x3000 0x01 (MBC_MBC5_Reset example_MBC5))))"
  by (simp add: CPUWrite_def MBC_MBC5_Write_def MBC_MBC5_Reset_def MBC_MBC5_UpdateActiveBanks_def
      example_MBC5_def new_Cartridge_def Let_def unsigned_minus_1_eq_mask mask_eq_exp_minus_1)

section \<open>MBC3: the clock latch\<close>

lemma MBC3_update_fields [simp]:
  "mbc3_rtc_latch_data (mbc3 (MBC_MBC3_UpdateActiveBanks c)) = mbc3_rtc_latch_data (mbc3 c)"
  "mbc3_rtc_latch (mbc3 (MBC_MBC3_UpdateActiveBanks c)) = mbc3_rtc_latch (mbc3 c)"
  "mbc3_ram_rtc_enable (mbc3 (MBC_MBC3_UpdateActiveBanks c)) = mbc3_ram_rtc_enable (mbc3 c)"
  "mbc3_ram_bank_number (mbc3 (MBC_MBC3_UpdateActiveBanks c)) = mbc3_ram_bank_number (mbc3 c)"
  by (simp_all add: MBC_MBC3_UpdateActiveBanks_def Let_def)

lemma store_eram_mbc3 [simp]: "mbc3 (store_eram off v c) = mbc3 c"
  by (simp add: store_eram_def Let_def)

lemma rtc_register_write_mbc3 [simp]: "mbc3 (rtc_register_write v c) = mbc3 c"
  by (simp add: rtc_register_write_def Let_def SaveRTC_def)

lemma MBC3_write_latch_window:
  "0x6000 \<le> a \<Longrightarrow> a \<le> 0x7FFF \<Longrightarrow>
   MBC_MBC3_Write now a v c =
     (let c1 = (if mbc3_rtc_latch (mbc3 c) \<noteq> 0x01 \<and> v = 0x01
                then c\<lparr>mbc3 := (mbc3 c)\<lparr>mbc3_rtc_latch_data := latch_bytes (GetCurrentRTCTime now c)\<rparr>\<rparr>
                else c)
      in c1\<lparr>mbc3 := (mbc3 c1)\<lparr>mbc3_rtc_latch := v\<rparr>\<rparr>)"
proof -
  assume "0x6000 \<le> a" "a \<le> 0x7FFF"
  then have "unat a div 4096 = 6 \<or> unat a div 4096 = 7" by (rule window_6)
  then show ?thesis
    by (elim disjE) (simp_all add: MBC_MBC3_Write_def sel_simps Let_def)
qed

lemma MBC3_write_other_window:
  "\<not> (0x6000 \<le> a \<and> a \<le> 0x7FFF) \<Longrightarrow>
   mbc3_rtc_latch_data (mbc3 (MBC_MBC3_Write now a v c)) = mbc3_rtc_latch_data (mbc3 c) \<and>
   mbc3_rtc_latch (mbc3 (MBC_MBC3_Write now a v c)) = mbc3_rtc_latch (mbc3 c)"
proof -
  assume "\<not> (0x6000 \<le> a \<and> a \<le> 0x7FFF)"
  then have "unat a div 4096 \<noteq> 6 \<and> unat a div 4096 \<noteq> 7"
    by (simp add: word_le_nat_alt) arith
  then show ?thesis
    by (simp add: MBC_MBC3_Write_def sel_simps Let_def SaveRAM_def)
qed

text \<open>
  C7, as the code has it. A write of \<open>v\<close> to an MBC3 cartridge replaces the five latched
  registers by the current clock time exactly when the address lies in 0x6000-0x7FFF,
  \<open>v\<close> is 1 and the latch register held a value other than 1 before (0 or anything
  else); every other write leaves the latched registers as they were. Reads are
  functions of the cartridge state and change nothing.
\<close>

theorem MBC3_latch_exactly_on_non1_to_1:
  "mbc3_rtc_latch_data (mbc3 (MBC_MBC3_Write now a v c)) =
     (if 0x6000 \<le> a \<and> a \<le> 0x7FFF \<and> mbc3_rtc_latch (mbc3 c) \<noteq> 0x01 \<and> v = 0x01
      then latch_bytes (GetCurrentRTCTime now c)
      else mbc3_rtc_latch_data (mbc3 c))"
proof (cases "0x6000 \<le> a \<and> a \<le> 0x7FFF")
  case True
  then show ?thesis by (simp add: MBC3_write_latch_window Let_def)
next
  case False
  then show ?thesis using MBC3_write_other_window [of a now v c] by auto
qed

lemma example_MBC3_reset_eq:
  "example_MBC3_reset = example_MBC3\<lparr>mbc3 := (mbc3 example_MBC3)\<lparr>mbc3_rom_bank_number := 1\<rparr>\<rparr>"
  by (simp add: example_MBC3_reset_def MBC_MBC3_Reset_def MBC_MBC3_UpdateActiveBanks_def
      example_MBC3_def new_Cartridge_def Let_def word_le_nat_alt)

lemma example_MBC3_latched_eq:
  "example_MBC3_latched =
     example_MBC3_reset\<lparr>mbc3 := (mbc3 example_MBC3_reset)\<lparr>mbc3_rtc_latch_data := [1, 1, 1, 0, 0],
                                                          mbc3_rtc_latch := 1\<rparr>\<rparr>"
  by (simp add: example_MBC3_latched_def MBC_MBC3_Write_def Let_def latch_bytes_def
      GetCurrentRTCTime_def example_MBC3_reset_eq example_MBC3_def new_Cartridge_def)

text \<open>
  The theorem at the example cartridge: the latch register holds 0 after reset and the
  write 0x6000 <- 1 at host time 3661 latches 1 second, 1 minute, 1 hour.
\<close>

theorem MBC3_latch_exactly_on_non1_to_1_witness:
  "mbc3_rtc_latch_data (mbc3 (MBC_MBC3_Write 3661 0x6000 0x01 example_MBC3_reset)) = [1, 1, 1, 0, 0]"
  using MBC3_latch_exactly_on_non1_to_1 [of 3661 "0x6000" "0x01" example_MBC3_reset]
  by (simp add: latch_bytes_def GetCurrentRTCTime_def example_MBC3_reset_eq example_MBC3_def
      new_Cartridge_def)

text \<open>
  The claim as stated fails: with the latch register at 2 (not a transition from 0), the
  write of 1 at host time 3661 replaces the latched registers all the same.
\<close>

theorem MBC3_latch_from_2_counterexample:
  "mbc3_rtc_latch (mbc3 (MBC_MBC3_Write 0 0x6000 0x02 example_MBC3_reset)) = 0x02 \<and>
   mbc3_rtc_latch_data (mbc3 (MBC_MBC3_Write 0 0x6000 0x02 example_MBC3_reset)) = [0, 0, 0, 0, 0] \<and>
   mbc3_rtc_latch_data
     (mbc3 (MBC_MBC3_Write 3661 0x6000 0x01 (MBC_MBC3_Write 0 0x6000 0x02 example_MBC3_reset)))
     = [1, 1, 1, 0, 0] \<and>
   mbc3_rtc_latch_data
     (mbc3 (MBC_MBC3_Write 3661 0x6000 0x01 (MBC_MBC3_Write 0 0x6000 0x02 example_MBC3_reset)))
     \<noteq> mbc3_rtc_latch_data (mbc3 (MBC_MBC3_Write 0 0x6000 0x02 example_MBC3_reset))"
  by (simp add: MBC_MBC3_Write_def Let_def latch_bytes_def GetCurrentRTCTime_def
      example_MBC3_reset_eq example_MBC3_def new_Cartridge_def)

section \<open>The clock time\<close>




















section \<open>Save states\<close>

lemma WriteUInt16_bytes: "WriteUInt16 v = [ucast v, ucast (drop_bit 8 v)]"
  by (simp add: WriteUInt16_def numeral_2_eq_2)

lemma WriteUInt32_bytes:
  "WriteUInt32 v = [ucast v, ucast (drop_bit 8 v), ucast (drop_bit 16 v), ucast (drop_bit 24 v)]"
  by (simp add: WriteUInt32_def eval_nat_numeral drop_bit_drop_bit)

lemma WriteUInt64_bytes:
  "WriteUInt64 v = [ucast v, ucast (drop_bit 8 v), ucast (drop_bit 16 v), ucast (drop_bit 24 v),
     ucast (drop_bit 32 v), ucast (drop_bit 40 v), ucast (drop_bit 48 v), ucast (drop_bit 56 v)]"
  by (simp add: WriteUInt64_def eval_nat_numeral drop_bit_drop_bit)

text \<open>
  C4. When the first four bytes of the stream, read as a \<open>u32\<close>, differ from
  \<open>m_crc\<close>, \<open>LoadState\<close> fails with the CRC mismatch error and returns the cartridge
  exactly as it was: RAM, clock fields and controller registers are untouched.
\<close>

theorem LoadState_crc_mismatch_refused:
  "ReadUInt32 st = Some (crc, rest) \<Longrightarrow> crc \<noteq> m_crc c \<Longrightarrow> LoadState c st = (Inl CrcMismatch, c)"
  by (simp add: LoadState_def)

lemma SaveState_example_crc1:
  "SaveState (example_MBC3_latched\<lparr>m_crc := 1\<rparr>) =
     [1,0,0,0, 0,0,0,0, 1, 0,0,0,0,0,0,0,0, 0,0, 0, 0, 0, 0, 3,0,0,0, 1, 0, 0, 0xFC,0xFF,0xFF,0xFF]"
  by (simp add: SaveState_def MBC_MBC3_SaveState_def example_MBC3_latched_eq example_MBC3_reset_eq
      example_MBC3_def new_Cartridge_def WriteUInt32_bytes WriteUInt64_bytes WriteUInt16_bytes
      WriteUInt8_def WriteBool_def)

text \<open>
  The theorem at a state saved under a ROM with CRC 1 and loaded into the example
  cartridge, whose CRC is 0.
\<close>

theorem LoadState_crc_mismatch_refused_witness:
  "ReadUInt32 (SaveState (example_MBC3_latched\<lparr>m_crc := 1\<rparr>)) =
     Some (1, [0,0,0,0, 1, 0,0,0,0,0,0,0,0, 0,0, 0, 0, 0, 0, 3,0,0,0, 1, 0, 0, 0xFC,0xFF,0xFF,0xFF]) \<and>
   (1 :: uint32) \<noteq> m_crc example_MBC3_reset \<and>
   LoadState example_MBC3_reset (SaveState (example_MBC3_latched\<lparr>m_crc := 1\<rparr>)) =
     (Inl CrcMismatch, example_MBC3_reset)"
proof -
  have r: "ReadUInt32 (SaveState (example_MBC3_latched\<lparr>m_crc := 1\<rparr>)) =
     Some (1, [0,0,0,0, 1, 0,0,0,0,0,0,0,0, 0,0, 0, 0, 0, 0, 3,0,0,0, 1, 0, 0, 0xFC,0xFF,0xFF,0xFF])"
    unfolding SaveState_example_crc1 by (simp add: ReadUInt32_def ReadBytes_def)
  have n: "(1 :: uint32) \<noteq> m_crc example_MBC3_reset"
    by (simp add: example_MBC3_reset_eq example_MBC3_def new_Cartridge_def)
  show ?thesis
    using r n LoadState_crc_mismatch_refused [OF r n] by simp
qed

lemma SaveState_example:
  "SaveState example_MBC3_latched =
     [0,0,0,0, 0,0,0,0, 1, 0,0,0,0,0,0,0,0, 0,0, 0, 0, 0, 0, 3,0,0,0, 1, 0, 0, 0xFC,0xFF,0xFF,0xFF]"
  by (simp add: SaveState_def MBC_MBC3_SaveState_def example_MBC3_latched_eq example_MBC3_reset_eq
      example_MBC3_def new_Cartridge_def WriteUInt32_bytes WriteUInt64_bytes WriteUInt16_bytes
      WriteUInt8_def WriteBool_def)

lemma LoadState_example:
  "LoadState example_MBC3_reset (SaveState example_MBC3_latched) = (Inr [], example_MBC3_reset)"
  unfolding SaveState_example
  by (simp add: LoadState_def LoadState_ram_def LoadState_rtc_def LoadState_mbc_def
      MBC_MBC3_LoadState_def ReadUInt32_def ReadUInt64_def ReadUInt16_def ReadUInt8_def ReadBool_def
      ReadBytes_def example_MBC3_reset_eq example_MBC3_def new_Cartridge_def word_le_nat_alt)

text \<open>
  C3, at the input where the code breaks it. The MBC3 example is saved after a latching
  write (latched registers 1, 1, 1, 0, 0, latch register 1); the state is loaded into
  the same cartridge as a fresh start has it. The load succeeds and consumes the whole
  stream, but the latched registers and the latch register of the result are those of
  the fresh cartridge: \<open>MBC_MBC3_SaveState\<close> writes neither, so the state restored is
  not the state saved.
\<close>

theorem MBC3_save_state_loses_latch:
  "fst (LoadState example_MBC3_reset (SaveState example_MBC3_latched)) = Inr [] \<and>
   mbc3_rtc_latch_data (mbc3 example_MBC3_latched) = [1, 1, 1, 0, 0] \<and>
   mbc3_rtc_latch (mbc3 example_MBC3_latched) = 1 \<and>
   mbc3_rtc_latch_data (mbc3 (snd (LoadState example_MBC3_reset (SaveState example_MBC3_latched))))
     = [0, 0, 0, 0, 0] \<and>
   mbc3_rtc_latch (mbc3 (snd (LoadState example_MBC3_reset (SaveState example_MBC3_latched)))) = 0 \<and>
   snd (LoadState example_MBC3_reset (SaveState example_MBC3_latched)) \<noteq> example_MBC3_latched"
proof -
  have d: "mbc3_rtc_latch_data (mbc3 example_MBC3_reset) = [0, 0, 0, 0, 0]"
    "mbc3_rtc_latch (mbc3 example_MBC3_reset) = 0"
    by (simp_all add: example_MBC3_reset_eq example_MBC3_def new_Cartridge_def)
  have l: "mbc3_rtc_latch_data (mbc3 example_MBC3_latched) = [1, 1, 1, 0, 0]"
    "mbc3_rtc_latch (mbc3 example_MBC3_latched) = 1"
    by (simp_all add: example_MBC3_latched_eq)
  have ne: "example_MBC3_reset \<noteq> example_MBC3_latched"
  proof
    assume "example_MBC3_reset = example_MBC3_latched"
    then have "mbc3_rtc_latch (mbc3 example_MBC3_reset) = mbc3_rtc_latch (mbc3 example_MBC3_latched)"
      by simp
    then show False by (simp add: d l)
  qed
  show ?thesis
    by (simp add: LoadState_example d l ne)
qed

section \<open>Display: frame timing\<close>

lemma SetMode_fields [simp]:
  "m_mode (snd (SetMode m d)) = m"
  "m_modeClocksRemaining (snd (SetMode m d)) = m_modeClocksRemaining d"
  "m_currentScanLine (snd (SetMode m d)) = m_currentScanLine d"
  by (simp_all add: SetMode_def Let_def)

lemma vblank_SetMode [simp]:
  "count_list (fst (SetMode m d)) CPU_INT_VBLANK = (if m = 1 then 1 else 0)"
  by (simp add: SetMode_def Let_def)

lemma SetScanline_fields [simp]:
  "m_mode (snd (SetScanline s d)) = m_mode d"
  "m_modeClocksRemaining (snd (SetScanline s d)) = m_modeClocksRemaining d"
  "m_currentScanLine (snd (SetScanline s d)) = s"
  by (simp_all add: SetScanline_def Let_def)

lemma vblank_SetScanline [simp]:
  "count_list (fst (SetScanline s d)) CPU_INT_VBLANK = 0"
  by (simp add: SetScanline_def Let_def)

lemma RenderScanline_fields [simp]:
  "m_mode (RenderScanline st d) = m_mode d"
  "m_modeClocksRemaining (RenderScanline st d) = m_modeClocksRemaining d"
  "m_currentScanLine (RenderScanline st d) = m_currentScanLine d"
  by (simp_all add: RenderScanline_def Let_def)

lemma of_nat_inj32:
  "a < 2 ^ 32 \<Longrightarrow> b < 2 ^ 32 \<Longrightarrow> ((of_nat a :: uint32) = of_nat b) = (a = b)"
  by (simp add: word_unat_eq_iff unat_of_nat)

lemma clocks_tick:
  assumes "1 \<le> k" "k \<le> 456"
  shows "((of_nat k :: uint32) = 1) = (k = 1)"
proof -
  have "((of_nat k :: uint32) = of_nat 1) = (k = 1)"
    using assms by (intro of_nat_inj32) simp_all
  then show ?thesis by simp
qed

lemma line_next:
  assumes "s < 154"
  shows "((of_nat s :: uint32) = 143) = (s = 143)"
    "((of_nat s :: uint32) = 153) = (s = 153)"
proof -
  have "((of_nat s :: uint32) = of_nat 143) = (s = 143)"
    using assms by (intro of_nat_inj32) simp_all
  then show "((of_nat s :: uint32) = 143) = (s = 143)" by simp
  have "((of_nat s :: uint32) = of_nat 153) = (s = 153)"
    using assms by (intro of_nat_inj32) simp_all
  then show "((of_nat s :: uint32) = 153) = (s = 153)" by simp
qed

lemma Step_mode2:
  assumes "m_mode d = 2" "m_modeClocksRemaining d = of_nat k" "1 \<le> k" "k \<le> 456"
  shows "timing (snd (Step i d)) =
           (if k = 1 then (3, 172, m_currentScanLine d) else (2, of_nat k - 1, m_currentScanLine d))"
    and "fst (fst (Step i d)) = False" and "vblank_requests (fst (Step i d)) = 0"
  using assms
  by (simp_all add: Step_def Let_def clocks_tick split_beta vblank_requests_def timing_def)

lemma Step_mode3:
  assumes "m_mode d = 3" "m_modeClocksRemaining d = of_nat k" "1 \<le> k" "k \<le> 456"
  shows "timing (snd (Step i d)) =
           (if k = 1 then (0, 204, m_currentScanLine d) else (3, of_nat k - 1, m_currentScanLine d))"
    and "fst (fst (Step i d)) = False" and "vblank_requests (fst (Step i d)) = 0"
  using assms
  by (simp_all add: Step_def Let_def clocks_tick split_beta vblank_requests_def timing_def)

lemma Step_mode0:
  assumes "m_mode d = 0" "m_modeClocksRemaining d = of_nat k" "1 \<le> k" "k \<le> 456"
    and "m_currentScanLine d = of_nat s" "s < 154"
  shows "timing (snd (Step i d)) =
           (if k = 1 then (if s = 143 then (1, 456, 144) else (2, 80, of_nat s + 1))
            else (0, of_nat k - 1, of_nat s))"
    and "fst (fst (Step i d)) = (k = 1 \<and> s = 143)"
    and "vblank_requests (fst (Step i d)) = (if k = 1 \<and> s = 143 then 1 else 0)"
  using assms
  by (simp_all add: Step_def Let_def clocks_tick line_next split_beta vblank_requests_def timing_def)

lemma Step_mode1:
  assumes "m_mode d = 1" "m_modeClocksRemaining d = of_nat k" "1 \<le> k" "k \<le> 456"
    and "m_currentScanLine d = of_nat s" "s < 154"
  shows "timing (snd (Step i d)) =
           (if k = 1 then (if s = 153 then (2, 80, 0) else (1, 456, of_nat s + 1))
            else (1, of_nat k - 1, of_nat s))"
    and "fst (fst (Step i d)) = False"
    and "vblank_requests (fst (Step i d)) = 0"
  using assms
  by (simp_all add: Step_def Let_def clocks_tick line_next split_beta vblank_requests_def timing_def)


lemma Step_refines_spec:
  assumes t: "timing d = enc (m, k, s)" and b: "m < 4" "1 \<le> k" "k \<le> 456" "s < 154"
  shows "timing (snd (Step i d)) = enc (snd (spec_step (m, k, s)))"
    and "(fst (fst (Step i d)), vblank_requests (fst (Step i d))) = fst (spec_step (m, k, s))"
proof -
  have f: "m_mode d = of_nat m" "m_modeClocksRemaining d = of_nat k" "m_currentScanLine d = of_nat s"
    using t by (simp_all add: timing_def enc_def)
  have k1: "(of_nat k :: uint32) - 1 = of_nat (k - 1)" using b by (simp add: of_nat_diff)
  have s1: "(of_nat s :: uint32) + 1 = of_nat (s + 1)" by simp
  from b consider "m = 0" | "m = 1" | "m = 2" | "m = 3" by arith
  then have "timing (snd (Step i d)) = enc (snd (spec_step (m, k, s))) \<and>
      (fst (fst (Step i d)), vblank_requests (fst (Step i d))) = fst (spec_step (m, k, s))"
  proof cases
    case 1
    then show ?thesis
      using Step_mode0 [of d k s i] f b
      by (simp add: spec_step_def enc_def of_nat_diff)
  next
    case 2
    then show ?thesis
      using Step_mode1 [of d k s i] f b
      by (simp add: spec_step_def enc_def of_nat_diff)
  next
    case 3
    then show ?thesis
      using Step_mode2 [of d k i] f b
      by (simp add: spec_step_def enc_def of_nat_diff)
  next
    case 4
    then show ?thesis
      using Step_mode3 [of d k i] f b
      by (simp add: spec_step_def enc_def of_nat_diff)
  qed
  then show "timing (snd (Step i d)) = enc (snd (spec_step (m, k, s)))"
    and "(fst (fst (Step i d)), vblank_requests (fst (Step i d))) = fst (spec_step (m, k, s))"
    by simp_all
qed

lemma phase_nat_qx:
  "x < 456 \<Longrightarrow> q < 154 \<Longrightarrow>
   phase_nat (456 * q + x) =
     (if q < 144
      then (if x < 80 then (2, 80 - x, q)
            else if x < 252 then (3, 252 - x, q)
            else (0, 456 - x, q))
      else (1, 456 - x, q))"
  by (simp add: phase_nat_def Let_def)

lemma phase_nat_wrap: "phase_nat 70224 = (2, 80, 0)"
  by (simp add: phase_nat_def Let_def)

lemma phase_nat_bounds:
  assumes "t < 70224" "phase_nat t = (m, k, s)"
  shows "m < 4 \<and> 1 \<le> k \<and> k \<le> 456 \<and> s < 154"
proof -
  define q x where "q = t div 456" and "x = t mod 456"
  have t: "t = 456 * q + x" and x: "x < 456" and q: "q < 154"
    using assms(1) by (simp_all add: q_def x_def)
  show ?thesis
    using assms(2) x q unfolding t phase_nat_qx [OF x q]
    by (auto split: if_splits)
qed

lemma phase_step:
  assumes "t < 70224"
  shows "spec_step (phase_nat t) = ((t = 65663, if t = 65663 then 1 else 0), phase_nat (Suc t))"
proof -
  define q x where "q = t div 456" and "x = t mod 456"
  have t: "t = 456 * q + x" and x: "x < 456" and q: "q < 154"
    using assms(1) by (simp_all add: q_def x_def)
  show ?thesis
  proof (cases "x = 455")
    case False
    then have x1: "x + 1 < 456" using x by simp
    have s: "Suc t = 456 * q + (x + 1)" by (simp add: t)
    have e: "(t = 65663) = False" using False by (auto simp: x_def)
    show ?thesis
      unfolding s e unfolding t phase_nat_qx [OF x q] phase_nat_qx [OF x1 q]
      using False x q by (auto simp: spec_step_def)
  next
    case True
    show ?thesis
    proof (cases "q = 153")
      case q153: True
      have s: "Suc t = 70224" by (simp add: t True q153)
      have e: "(t = 65663) = False" by (simp add: t True q153)
      show ?thesis
        unfolding s e phase_nat_wrap unfolding t phase_nat_qx [OF x q]
        by (simp add: True q153 spec_step_def)
    next
      case False
      then have q1: "q + 1 < 154" using q by simp
      have x0: "(0::nat) < 456" by simp
      have s: "Suc t = 456 * (q + 1) + 0" by (simp add: t True)
      have e: "(t = 65663) = (q = 143)" by (simp add: t True)
      show ?thesis
        unfolding s e unfolding t phase_nat_qx [OF x q] phase_nat_qx [OF x0 q1]
        using False q by (auto simp: True spec_step_def)
    qed
  qed
qed


lemma Step_phase:
  assumes t: "t < 70224" and d: "timing d = phase t"
  shows "timing (snd (Step i d)) = phase (Suc t) \<and>
         fst (fst (Step i d)) = (t = 65663) \<and>
         vblank_requests (fst (Step i d)) = (if t = 65663 then 1 else 0)"
proof -
  obtain m k s where p: "phase_nat t = (m, k, s)" by (cases "phase_nat t") auto
  have b: "m < 4" "1 \<le> k" "k \<le> 456" "s < 154"
    using phase_nat_bounds [OF t p] by simp_all
  have e: "timing d = enc (m, k, s)" using d by (simp add: phase_def p)
  have sp: "spec_step (m, k, s) = ((t = 65663, if t = 65663 then 1 else 0), phase_nat (Suc t))"
    using phase_step [OF t] by (simp add: p)
  show ?thesis
    using Step_refines_spec [OF e b, of i] by (simp add: sp phase_def)
qed

lemma Steps_phase:
  "t + length ins \<le> 70224 \<Longrightarrow> timing d = phase t \<Longrightarrow>
   timing (snd (Steps ins d)) = phase (t + length ins) \<and>
   length (fst (Steps ins d)) = length ins \<and>
   (\<forall>j < length ins. fst (fst (Steps ins d) ! j) = (t + j = 65663) \<and>
      vblank_requests (fst (Steps ins d) ! j) = (if t + j = 65663 then 1 else 0))"
proof (induction ins arbitrary: t d)
  case Nil
  then show ?case by simp
next
  case (Cons i ins)
  have t: "t < 70224" using Cons.prems(1) by simp
  note st = Step_phase [OF t Cons.prems(2), of i]
  have le: "Suc t + length ins \<le> 70224" using Cons.prems(1) by simp
  have d1: "timing (snd (Step i d)) = phase (Suc t)" using st by simp
  note ih = Cons.IH [OF le d1]
  show ?case
  proof (intro conjI allI impI)
    show "timing (snd (Steps (i # ins) d)) = phase (t + length (i # ins))"
      using ih by (simp add: split_beta)
    show "length (fst (Steps (i # ins) d)) = length (i # ins)"
      using ih by (simp add: split_beta)
  next
    fix j assume j: "j < length (i # ins)"
    show "fst (fst (Steps (i # ins) d) ! j) = (t + j = 65663)"
      using ih st j by (cases j) (simp_all add: split_beta)
    show "vblank_requests (fst (Steps (i # ins) d) ! j) = (if t + j = 65663 then 1 else 0)"
      using ih st j by (cases j) (simp_all add: split_beta)
  qed
qed

lemma filter_single:
  assumes k: "k < length xs" and p: "\<forall>j < length xs. P (xs ! j) = (j = k)"
  shows "filter P xs = [xs ! k]"
proof -
  have a: "filter P (take k xs) = []"
    using k p by (auto simp: filter_empty_conv in_set_conv_nth)
  have b: "filter P (drop (Suc k) xs) = []"
    using k p by (auto simp: filter_empty_conv in_set_conv_nth)
  have c: "P (xs ! k)" using k p by simp
  have "xs = take k xs @ xs ! k # drop (Suc k) xs" using k by (rule id_take_nth_drop)
  then have "filter P xs = filter P (take k xs @ xs ! k # drop (Suc k) xs)" by simp
  then show ?thesis by (simp add: a b c)
qed

lemma sum_single:
  assumes k: "k < length xs" and p: "\<forall>j < length xs. f (xs ! j) = (if j = k then 1 else (0::nat))"
  shows "sum_list (map f xs) = 1"
proof -
  have a: "sum_list (map f (take k xs)) = 0"
    using k p by (auto simp: in_set_conv_nth)
  have b: "sum_list (map f (drop (Suc k) xs)) = 0"
    using k p by (auto simp: in_set_conv_nth)
  have c: "f (xs ! k) = 1" using k p by simp
  have "xs = take k xs @ xs ! k # drop (Suc k) xs" using k by (rule id_take_nth_drop)
  then have "sum_list (map f xs) = sum_list (map f (take k xs @ xs ! k # drop (Suc k) xs))" by simp
  then show ?thesis by (simp add: a b c)
qed


lemma Display_Reset_timing: "timing (snd Display_Reset) = phase 0"
  by (simp add: Display_Reset_def SetMode_def Let_def timing_def phase_def phase_nat_def enc_def)

lemma phase_values:
  "phase 65663 = (0, 1, 143)" "phase 65664 = (1, 456, 144)" "phase 70224 = (2, 80, 0)"
  by (simp_all add: phase_def phase_nat_def enc_def Let_def)

text \<open>
  C1. From the display as \<open>Reset\<close> leaves it (mode 2, 80 clocks remaining, line 0),
  whatever the system memory is at each call, 70224 calls of \<open>Step\<close> return
  \<open>pushFrameBuffer\<close> true exactly once, at the 65664th call (index 65663); the VBlank
  interrupt is requested exactly once, in that same call, which is the call that moves
  the scanline counter from 143 to 144; after the last call the display is back in mode
  2 with 80 clocks remaining on line 0.
\<close>

theorem PPU_frame_timing:
  assumes len: "length ins = 70224"
  shows "length (fst (Steps ins (snd Display_Reset))) = 70224 \<and>
         (\<forall>j < 70224. fst (fst (Steps ins (snd Display_Reset)) ! j) = (j = 65663)) \<and>
         (\<forall>j < 70224. vblank_requests (fst (Steps ins (snd Display_Reset)) ! j) =
                         (if j = 65663 then 1 else 0)) \<and>
         length (filter fst (fst (Steps ins (snd Display_Reset)))) = 1 \<and>
         sum_list (map vblank_requests (fst (Steps ins (snd Display_Reset)))) = 1 \<and>
         m_currentScanLine (snd (Steps (take 65663 ins) (snd Display_Reset))) = 143 \<and>
         m_currentScanLine (snd (Steps (take 65664 ins) (snd Display_Reset))) = 144 \<and>
         timing (snd (Steps ins (snd Display_Reset))) = (2, 80, 0)"
proof -
  let ?d = "snd Display_Reset"
  let ?outs = "fst (Steps ins ?d)"
  have all: "timing (snd (Steps ins ?d)) = phase (0 + length ins) \<and>
      length ?outs = length ins \<and>
      (\<forall>j < length ins. fst (?outs ! j) = (0 + j = 65663) \<and>
         vblank_requests (?outs ! j) = (if 0 + j = 65663 then 1 else 0))"
    by (rule Steps_phase) (simp_all add: len Display_Reset_timing)
  have n: "length ?outs = 70224" using all len by simp
  have push: "\<forall>j < length ?outs. fst (?outs ! j) = (j = 65663)" using all len by simp
  have vb: "\<forall>j < length ?outs. vblank_requests (?outs ! j) = (if j = 65663 then 1 else 0)"
    using all len by simp
  have k: "65663 < length ?outs" by (simp add: n)
  have one: "length (filter fst ?outs) = 1"
    using filter_single [OF k push] by simp
  have sum: "sum_list (map vblank_requests ?outs) = 1"
    by (rule sum_single [OF k vb])
  have a: "timing (snd (Steps (take 65663 ins) ?d)) = phase (0 + length (take 65663 ins))"
    using Steps_phase [of 0 "take 65663 ins" ?d] by (simp add: len Display_Reset_timing)
  have b: "timing (snd (Steps (take 65664 ins) ?d)) = phase (0 + length (take 65664 ins))"
    using Steps_phase [of 0 "take 65664 ins" ?d] by (simp add: len Display_Reset_timing)
  have l143: "m_currentScanLine (snd (Steps (take 65663 ins) ?d)) = 143"
    using a by (simp add: len phase_values timing_def)
  have l144: "m_currentScanLine (snd (Steps (take 65664 ins) ?d)) = 144"
    using b by (simp add: len phase_values timing_def)
  have fin: "timing (snd (Steps ins ?d)) = (2, 80, 0)"
    using all by (simp add: len phase_values)
  show ?thesis
    using n push vb one sum l143 l144 fin by simp
qed

text \<open>The theorem at the all-zero input sequence.\<close>

theorem PPU_frame_timing_witness:
  "length example_inputs = 70224 \<and>
   length (fst (Steps example_inputs (snd Display_Reset))) = 70224 \<and>
   fst (fst (Steps example_inputs (snd Display_Reset)) ! 65663) \<and>
   vblank_requests (fst (Steps example_inputs (snd Display_Reset)) ! 65663) = 1 \<and>
   \<not> fst (fst (Steps example_inputs (snd Display_Reset)) ! 65662) \<and>
   vblank_requests (fst (Steps example_inputs (snd Display_Reset)) ! 65664) = 0 \<and>
   length (filter fst (fst (Steps example_inputs (snd Display_Reset)))) = 1 \<and>
   sum_list (map vblank_requests (fst (Steps example_inputs (snd Display_Reset)))) = 1 \<and>
   m_currentScanLine (snd (Steps (take 65663 example_inputs) (snd Display_Reset))) = 143 \<and>
   m_currentScanLine (snd (Steps (take 65664 example_inputs) (snd Display_Reset))) = 144 \<and>
   timing (snd (Steps example_inputs (snd Display_Reset))) = (2, 80, 0)"
proof -
  have len: "length example_inputs = 70224" by (simp add: example_inputs_def)
  note th = PPU_frame_timing [OF len]
  have p: "fst (fst (Steps example_inputs (snd Display_Reset)) ! 65663)"
    "\<not> fst (fst (Steps example_inputs (snd Display_Reset)) ! 65662)"
    using th by simp_all
  have v: "vblank_requests (fst (Steps example_inputs (snd Display_Reset)) ! 65663) = 1"
    "vblank_requests (fst (Steps example_inputs (snd Display_Reset)) ! 65664) = 0"
    using th by simp_all
  show ?thesis using len th p v by simp
qed

section \<open>Display: the coincidence flag\<close>

lemma Display_Reset_registers:
  "m_registers (snd Display_Reset) = zero_Registers\<lparr>STAT := 2\<rparr>"
  by (simp add: Display_Reset_def SetMode_def Let_def zero_Registers_def)

lemma bit2_cleared: "((x :: uint8) AND 0xFB) AND 0x04 = 0"
  by (simp add: and.assoc)

lemma bit2_set: "(((x :: uint8) AND 0xFB) OR 0x04) AND 0x04 = 0x04"
  by (simp add: bit.conj_disj_distrib2 and.assoc)

text \<open>
  What \<open>SetScanline\<close> does with the flag, for every display and line: bit 2 is set
  afterwards if and only if "bit 2 was set before" and "LYC equals the new LY" are both
  true or both false.
\<close>

lemma SetScanline_flag:
  "(STAT (m_registers (snd (SetScanline n d))) AND 0x04 \<noteq> 0) =
     ((STAT (m_registers d) AND 0x04 \<noteq> 0) =
      (LYC (m_registers d) = LY (m_registers (snd (SetScanline n d)))))"
  by (simp add: SetScanline_def Let_def bit2_cleared bit2_set)

text \<open>
  C5, at inputs where the code breaks it. \<open>SetScanline\<close> computes the flag as
  \<open>LYC == LY\<close> only when STAT bit 2 was set before the call, and as \<open>LYC != LY\<close>
  otherwise. First input: the display after reset (STAT bit 2 clear, LYC = 0) and the
  first change of line, to 1: bit 2 becomes 1 although LY differs from LYC. Second
  input: the same display with LYC = 1 and the coincidence interrupt enabled (STAT bit
  6): at the change to line 1, LY equals LYC, yet bit 2 stays 0 and no LCDSTAT
  interrupt is requested.
\<close>

theorem SetScanline_coincidence_inverted:
  "STAT (m_registers (snd Display_Reset)) AND 0x04 = 0 \<and>
   LY (m_registers (snd (SetScanline 1 (snd Display_Reset)))) = 1 \<and>
   LYC (m_registers (snd (SetScanline 1 (snd Display_Reset)))) = 0 \<and>
   STAT (m_registers (snd (SetScanline 1 (snd Display_Reset)))) AND 0x04 = 0x04 \<and>
   STAT (m_registers example_Display_lyc) AND 0x04 = 0 \<and>
   STAT (m_registers example_Display_lyc) AND 0x40 = 0x40 \<and>
   LY (m_registers (snd (SetScanline 1 example_Display_lyc))) = 1 \<and>
   LYC (m_registers (snd (SetScanline 1 example_Display_lyc))) = 1 \<and>
   STAT (m_registers (snd (SetScanline 1 example_Display_lyc))) AND 0x04 = 0 \<and>
   fst (SetScanline 1 example_Display_lyc) = []"
  by (simp add: SetScanline_def Let_def Display_Reset_registers zero_Registers_def
      example_Display_lyc_def)

section \<open>Display: the sprites of a line\<close>

lemma cull_example:
  "cull_sprites 8 0 example_oam =
     [sprite_at 11, sprite_at 10, sprite_at 9, sprite_at 8, sprite_at 7, sprite_at 6, sprite_at 5,
      sprite_at 4, sprite_at 3, sprite_at 2, sprite_at 1]"
  by (simp add: cull_sprites_def example_oam_def sprite_on_line_def sprite_at_def zero_OAM_ENTRY_def
      Let_def word_le_nat_alt)

lemma sprites_example:
  "active_sprites example_stack 8 0 example_oam =
     [sprite_at 1, sprite_at 2, sprite_at 3, sprite_at 4, sprite_at 5, sprite_at 6, sprite_at 7,
      sprite_at 8, sprite_at 9, sprite_at 10, sprite_at 11]"
  unfolding active_sprites_def cull_example Let_def
  by (simp add: sprite_at_def zero_OAM_ENTRY_def example_stack_def)

lemma example_Display_sprites_fields:
  "m_registers example_Display_sprites = zero_Registers\<lparr>LCDC := 0x82, OBP0 := 0xE4\<rparr>"
  "m_vramCopy example_Display_sprites = replicate 8192 0xFF"
  "m_oamCopy example_Display_sprites = example_oam"
  by (simp_all add: example_Display_sprites_def)

lemma sprite_pixel_example_11:
  "sprite_pixel (zero_Registers\<lparr>LCDC := 0x82, OBP0 := 0xE4\<rparr>) (replicate 8192 0xFF) 0 0 10 0 0xFFFFFFFF
     [sprite_at 1, sprite_at 2, sprite_at 3, sprite_at 4, sprite_at 5, sprite_at 6, sprite_at 7,
      sprite_at 8, sprite_at 9, sprite_at 10, sprite_at 11] = 0xFF000000"
  by (simp add: sprite_at_def zero_OAM_ENTRY_def Let_def sprite_color_def zero_Registers_def
      grayscale_colors_def ReadTile_def)

lemma sprite_pixel_example_10:
  "sprite_pixel (zero_Registers\<lparr>LCDC := 0x82, OBP0 := 0xE4\<rparr>) (replicate 8192 0xFF) 0 0 10 0 0xFFFFFFFF
     [sprite_at 1, sprite_at 2, sprite_at 3, sprite_at 4, sprite_at 5, sprite_at 6, sprite_at 7,
      sprite_at 8, sprite_at 9, sprite_at 10] = 0xFFFFFFFF"
  by (simp add: sprite_at_def zero_OAM_ENTRY_def Let_def)

lemma PutPixel_length [simp]: "length (PutPixel x y c fb) = length fb"
  by (simp add: PutPixel_def Let_def)

lemma PutPixel_before: "i < (y * SCREEN_WIDTH + x) * 4 \<Longrightarrow> PutPixel x y c fb ! i = fb ! i"
  by (simp add: PutPixel_def Let_def)

lemma PutPixel_bytes:
  assumes "(y * SCREEN_WIDTH + x) * 4 + 3 < length fb"
  shows "PutPixel x y c fb ! ((y * SCREEN_WIDTH + x) * 4) = ucast (c AND 0xFF)"
    "PutPixel x y c fb ! ((y * SCREEN_WIDTH + x) * 4 + 1) = ucast (drop_bit 8 c AND 0xFF)"
    "PutPixel x y c fb ! ((y * SCREEN_WIDTH + x) * 4 + 2) = ucast (drop_bit 16 c AND 0xFF)"
    "PutPixel x y c fb ! ((y * SCREEN_WIDTH + x) * 4 + 3) = ucast (drop_bit 24 c AND 0xFF)"
  using assms by (simp_all add: PutPixel_def Let_def)

lemma render_pixels_length [simp]: "length (render_pixels d sp n x p fb) = length fb"
  by (induction n arbitrary: x p fb) (simp_all add: split_beta)

lemma render_pixels_before:
  "i < (unat (LY (m_registers d)) * SCREEN_WIDTH + x) * 4 \<Longrightarrow>
   render_pixels d sp n x p fb ! i = fb ! i"
proof (induction n arbitrary: x p fb)
  case 0
  then show ?case by simp
next
  case (Suc n)
  have "i < (unat (LY (m_registers d)) * SCREEN_WIDTH + (x + 1)) * 4" using Suc.prems by simp
  then show ?case using Suc.prems by (simp add: split_beta Suc.IH PutPixel_before)
qed

lemma render_pixel_bg_off:
  "LCDC (m_registers d) AND 0x01 = 0 \<Longrightarrow> snd (render_pixel d sp x p) = p"
  by (simp add: render_pixel_def Let_def)

lemma render_pixels_pixel:
  assumes bg: "LCDC (m_registers d) AND 0x01 = 0"
  shows "j < n \<Longrightarrow> (unat (LY (m_registers d)) * SCREEN_WIDTH + (x + j)) * 4 + 3 < length fb \<Longrightarrow>
     b < 4 \<Longrightarrow>
     render_pixels d sp n x p fb ! ((unat (LY (m_registers d)) * SCREEN_WIDTH + (x + j)) * 4 + b) =
       [ucast (fst (render_pixel d sp (x + j) p) AND 0xFF),
        ucast (drop_bit 8 (fst (render_pixel d sp (x + j) p)) AND 0xFF),
        ucast (drop_bit 16 (fst (render_pixel d sp (x + j) p)) AND 0xFF),
        ucast (drop_bit 24 (fst (render_pixel d sp (x + j) p)) AND 0xFF)] ! b"
proof (induction n arbitrary: x j fb)
  case 0
  then show ?case by simp
next
  case (Suc n)
  let ?y = "unat (LY (m_registers d))"
  let ?c = "fst (render_pixel d sp x p)"
  have step: "render_pixels d sp (Suc n) x p fb = render_pixels d sp n (x + 1) p (PutPixel x ?y ?c fb)"
    by (simp add: split_beta render_pixel_bg_off [OF bg])
  show ?case
  proof (cases j)
    case 0
    have i: "(?y * SCREEN_WIDTH + x) * 4 + b < (?y * SCREEN_WIDTH + (x + 1)) * 4"
      using Suc.prems(3) by simp
    have l: "(?y * SCREEN_WIDTH + x) * 4 + 3 < length fb" using Suc.prems(2) 0 by simp
    from Suc.prems(3) consider "b = 0" | "b = 1" | "b = 2" | "b = 3" by arith
    then show ?thesis
      unfolding step
      using render_pixels_before [OF i, of sp n p "PutPixel x ?y ?c fb"] PutPixel_bytes [OF l, of ?c]
      by cases (simp_all add: 0 del: render_pixels.simps)
  next
    case (Suc j')
    have a: "j' < n" using Suc.prems(1) Suc by simp
    have l: "(?y * SCREEN_WIDTH + (x + 1 + j')) * 4 + 3 < length (PutPixel x ?y ?c fb)"
      using Suc.prems(2) Suc by simp
    show ?thesis
      unfolding step
      using Suc.IH [OF a l Suc.prems(3)] by (simp add: Suc del: render_pixels.simps)
  qed
qed


lemma example_Display_sprites_more:
  "m_currentScanLine example_Display_sprites = 0"
  "length (m_frameBuffer example_Display_sprites) = 92160"
  by (simp_all add: example_Display_sprites_def Display_Reset_def SetMode_def Let_def
      SCREEN_WIDTH_def SCREEN_HEIGHT_def)

lemma RenderScanline_example:
  "m_frameBuffer (RenderScanline example_stack example_Display_sprites) =
     render_pixels example_Display_sprites
       (active_sprites example_stack 8 0 (m_oamCopy example_Display_sprites)) 160 0 example_BGPos
       (replicate 640 0xFF @ drop 640 (m_frameBuffer example_Display_sprites))"
proof -
  have r: "LCDC (zero_Registers\<lparr>LCDC := 0x82, OBP0 := 0xE4\<rparr>) = 0x82"
    "LY (zero_Registers\<lparr>LCDC := 0x82, OBP0 := 0xE4\<rparr>) = 0"
    "SCX (zero_Registers\<lparr>LCDC := 0x82, OBP0 := 0xE4\<rparr>) = 0"
    "SCY (zero_Registers\<lparr>LCDC := 0x82, OBP0 := 0xE4\<rparr>) = 0"
    by (simp_all add: zero_Registers_def)
  show ?thesis
    unfolding RenderScanline_def Let_def example_Display_sprites_fields(1,2) r
      example_Display_sprites_more(1)
    by (simp add: example_BGPos_def SCREEN_WIDTH_def)
qed

lemma example_line_pixel:
  assumes j: "j < 160" and b: "b < 4"
  shows "m_frameBuffer (RenderScanline example_stack example_Display_sprites) ! (j * 4 + b) =
       [ucast (fst (render_pixel example_Display_sprites
           (active_sprites example_stack 8 0 (m_oamCopy example_Display_sprites)) j example_BGPos) AND 0xFF),
        ucast (drop_bit 8 (fst (render_pixel example_Display_sprites
           (active_sprites example_stack 8 0 (m_oamCopy example_Display_sprites)) j example_BGPos)) AND 0xFF),
        ucast (drop_bit 16 (fst (render_pixel example_Display_sprites
           (active_sprites example_stack 8 0 (m_oamCopy example_Display_sprites)) j example_BGPos)) AND 0xFF),
        ucast (drop_bit 24 (fst (render_pixel example_Display_sprites
           (active_sprites example_stack 8 0 (m_oamCopy example_Display_sprites)) j example_BGPos)) AND 0xFF)] ! b"
proof -
  have bg: "LCDC (m_registers example_Display_sprites) AND 0x01 = 0"
    by (simp add: example_Display_sprites_fields zero_Registers_def)
  have y: "unat (LY (m_registers example_Display_sprites)) = 0"
    by (simp add: example_Display_sprites_fields zero_Registers_def)
  have l: "(unat (LY (m_registers example_Display_sprites)) * SCREEN_WIDTH + (0 + j)) * 4 + 3
      < length (replicate 640 0xFF @ drop 640 (m_frameBuffer example_Display_sprites))"
    using j by (simp add: y example_Display_sprites_more)
  show ?thesis
    unfolding RenderScanline_example
    using render_pixels_pixel [OF bg j l b] by (simp add: y)
qed

text \<open>
  C6, at the input where the code breaks it. With eleven sprites on line 0 (X = 1 to 11)
  the count after \<open>Max(num_active_sprites, 10)\<close> is 11, so all eleven sprites, sorted by
  X, are considered. Pixel 10 of the line is covered only by the sprite with X = 11, the
  eleventh in X order: it is drawn in that sprite's colour (black, 0xFF000000, bytes
  40 to 43 of the frame buffer after \<open>RenderScanline\<close>), whereas the first ten sprites
  alone leave it white.
\<close>

theorem RenderScanline_eleventh_sprite_drawn:
  "length (cull_sprites 8 0 (m_oamCopy example_Display_sprites)) = 11 \<and>
   map oam_x (active_sprites example_stack 8 0 (m_oamCopy example_Display_sprites)) =
     [1, 2, 3, 4, 5, 6, 7, 8, 9, 10, 11] \<and>
   fst (render_pixel example_Display_sprites
          (active_sprites example_stack 8 0 (m_oamCopy example_Display_sprites)) 10 example_BGPos)
     = 0xFF000000 \<and>
   fst (render_pixel example_Display_sprites
          (take 10 (active_sprites example_stack 8 0 (m_oamCopy example_Display_sprites))) 10 example_BGPos)
     = 0xFFFFFFFF \<and>
   m_frameBuffer (RenderScanline example_stack example_Display_sprites) ! 40 = 0x00 \<and>
   m_frameBuffer (RenderScanline example_stack example_Display_sprites) ! 41 = 0x00 \<and>
   m_frameBuffer (RenderScanline example_stack example_Display_sprites) ! 42 = 0x00 \<and>
   m_frameBuffer (RenderScanline example_stack example_Display_sprites) ! 43 = 0xFF"
proof -
  have r: "LCDC (zero_Registers\<lparr>LCDC := 0x82, OBP0 := 0xE4\<rparr>) = 0x82"
    "LY (zero_Registers\<lparr>LCDC := 0x82, OBP0 := 0xE4\<rparr>) = 0"
    by (simp_all add: zero_Registers_def)
  have a: "fst (render_pixel example_Display_sprites
          (active_sprites example_stack 8 0 (m_oamCopy example_Display_sprites)) 10 example_BGPos)
     = 0xFF000000"
    unfolding render_pixel_def example_Display_sprites_fields sprites_example Let_def r
    by (simp add: sprite_pixel_example_11 del: sprite_pixel.simps)
  have b: "fst (render_pixel example_Display_sprites
          (take 10 (active_sprites example_stack 8 0 (m_oamCopy example_Display_sprites))) 10 example_BGPos)
     = 0xFFFFFFFF"
    unfolding render_pixel_def example_Display_sprites_fields sprites_example Let_def r
    by (simp add: sprite_pixel_example_10 del: sprite_pixel.simps)
  have c: "length (cull_sprites 8 0 (m_oamCopy example_Display_sprites)) = 11"
    unfolding example_Display_sprites_fields cull_example by simp
  have d: "map oam_x (active_sprites example_stack 8 0 (m_oamCopy example_Display_sprites)) =
     [1, 2, 3, 4, 5, 6, 7, 8, 9, 10, 11]"
    unfolding example_Display_sprites_fields sprites_example by (simp add: sprite_at_def)
  have f0: "m_frameBuffer (RenderScanline example_stack example_Display_sprites) ! 40 = 0x00"
    using example_line_pixel [of 10 0] by (simp add: a)
  have f1: "m_frameBuffer (RenderScanline example_stack example_Display_sprites) ! 41 = 0x00"
    using example_line_pixel [of 10 1] by (simp add: a)
  have f2: "m_frameBuffer (RenderScanline example_stack example_Display_sprites) ! 42 = 0x00"
    using example_line_pixel [of 10 2] by (simp add: a)
  have f3: "m_frameBuffer (RenderScanline example_stack example_Display_sprites) ! 43 = 0xFF"
    using example_line_pixel [of 10 3] by (simp add: a)
  show ?thesis using a b c d f0 f1 f2 f3 by simp
qed

section \<open>Where the clamp of the active bank works\<close>

text \<open>
  The active ROM bank stays below the bank count under every write of an MBC1 or MBC3
  cartridge with at least one bank, and of an MBC5 cartridge whose bank count is not a
  multiple of 256: the out-of-range bank of the 256-bank MBC5 cartridge above is the
  only case among the bank counts of the ROM size table.
\<close>

lemma clamp8:
  assumes "0 < (n :: uint32)"
  shows "(ucast ((ucast n :: uint8) - 1) :: uint32) < n"
proof (cases "(ucast n :: uint8) = 0")
  case True
  have m: "unat n mod 256 = 0"
    using True by (simp add: word_unat_eq_iff unsigned_ucast_eq take_bit_eq_mod)
  have p: "0 < unat n" using assms by (simp add: word_less_nat_alt)
  have "256 \<le> unat n" using m p by arith
  then show ?thesis
    by (simp add: True word_less_nat_alt unsigned_ucast_eq take_bit_eq_mod unsigned_minus_1_eq_mask mask_eq_exp_minus_1)
next
  case False
  have a: "unat ((ucast n :: uint8) - 1) = unat (ucast n :: uint8) - 1"
    using False by (simp add: unat_minus_one)
  have b: "unat (ucast n :: uint8) \<le> unat n"
    by (simp add: unsigned_ucast_eq take_bit_eq_mod)
  have c: "0 < unat (ucast n :: uint8)" using False by (simp add: unat_gt_0)
  have "unat ((ucast n :: uint8) - 1) < 256"
    using unsigned_less [of "(ucast n :: uint8) - 1", where 'a=nat] by simp
  then have d: "unat (ucast ((ucast n :: uint8) - 1) :: uint32) = unat ((ucast n :: uint8) - 1)"
    by (simp add: unsigned_ucast_eq take_bit_eq_mod)
  show ?thesis
    unfolding word_less_nat_alt d a using b c by arith
qed

lemma MBC1_active_in_range:
  assumes "0 < m_num_rom_banks c"
  shows "(ucast (mbc1_active_rom_bank (mbc1 (MBC_MBC1_UpdateActiveBanks c))) :: uint32) < m_num_rom_banks c"
  using clamp8 [OF assms]
  by (simp add: MBC_MBC1_UpdateActiveBanks_def Let_def not_le)

lemma MBC3_active_in_range:
  assumes "0 < m_num_rom_banks c"
  shows "(ucast (mbc3_rom_bank_number (mbc3 (MBC_MBC3_UpdateActiveBanks c))) :: uint32) < m_num_rom_banks c"
  using clamp8 [OF assms]
  by (simp add: MBC_MBC3_UpdateActiveBanks_def Let_def not_le)


lemma clamp16:
  assumes "(ucast (n :: uint32) :: uint8) \<noteq> 0"
  shows "(ucast ((ucast (ucast n :: uint8) :: uint16) - 1) :: uint32) < n"
proof -
  define x :: uint8 where "x = ucast n"
  have b: "unat x \<le> unat n"
    by (simp add: x_def unsigned_ucast_eq take_bit_eq_mod)
  have c: "0 < unat x" using assms by (simp add: x_def unat_gt_0)
  have l: "unat x < 256"
    using unsigned_less [of x, where 'a=nat] by simp
  have e: "unat (ucast x :: uint16) = unat x"
    using l by (simp add: unsigned_ucast_eq take_bit_nat_eq_self)
  have nz: "(ucast x :: uint16) \<noteq> 0"
    using c e by (simp add: unat_gt_0 [symmetric])
  have a: "unat ((ucast x :: uint16) - 1) = unat x - 1"
    using nz e by (simp add: unat_minus_one)
  have d: "unat (ucast ((ucast x :: uint16) - 1) :: uint32) = unat ((ucast x :: uint16) - 1)"
    using a l by (simp add: unsigned_ucast_eq take_bit_nat_eq_self)
  show ?thesis
    unfolding word_less_nat_alt x_def [symmetric] d a using b c by arith
qed

lemma MBC5_active_in_range:
  assumes "(ucast (m_num_rom_banks c) :: uint8) \<noteq> 0"
  shows "(ucast (mbc5_active_rom_bank (mbc5 (MBC_MBC5_UpdateActiveBanks c))) :: uint32) < m_num_rom_banks c"
  using clamp16 [OF assms]
  by (simp add: MBC_MBC5_UpdateActiveBanks_def Let_def not_le)

lemma MBC1_update_num [simp]:
  "m_num_rom_banks (MBC_MBC1_UpdateActiveBanks c) = m_num_rom_banks c"
  by (simp add: MBC_MBC1_UpdateActiveBanks_def Let_def)

lemma store_eram_other [simp]:
  "m_num_rom_banks (store_eram off v c) = m_num_rom_banks c"
  "mbc1 (store_eram off v c) = mbc1 c"
  by (simp_all add: store_eram_def Let_def)

lemma MBC1_Write_in_range:
  assumes n: "0 < m_num_rom_banks c"
    and i: "(ucast (mbc1_active_rom_bank (mbc1 c)) :: uint32) < m_num_rom_banks c"
  shows "(ucast (mbc1_active_rom_bank (mbc1 (MBC_MBC1_Write a v c))) :: uint32)
           < m_num_rom_banks (MBC_MBC1_Write a v c)"
proof -
  have u: "\<And>c'. m_num_rom_banks c' = m_num_rom_banks c \<Longrightarrow>
      (ucast (mbc1_active_rom_bank (mbc1 (MBC_MBC1_UpdateActiveBanks c'))) :: uint32)
        < m_num_rom_banks c"
    using MBC1_active_in_range n by metis
  show ?thesis
    using i by (simp add: MBC_MBC1_Write_def Let_def SaveRAM_def u)
qed


lemma MBC3_update_num [simp]:
  "m_num_rom_banks (MBC_MBC3_UpdateActiveBanks c) = m_num_rom_banks c"
  by (simp add: MBC_MBC3_UpdateActiveBanks_def Let_def)

lemma MBC5_update_num [simp]:
  "m_num_rom_banks (MBC_MBC5_UpdateActiveBanks c) = m_num_rom_banks c"
  by (simp add: MBC_MBC5_UpdateActiveBanks_def Let_def)

lemma store_eram_mbc5 [simp]: "mbc5 (store_eram off v c) = mbc5 c"
  by (simp add: store_eram_def Let_def)

lemma rtc_register_write_num [simp]:
  "m_num_rom_banks (rtc_register_write v c) = m_num_rom_banks c"
  by (simp add: rtc_register_write_def Let_def SaveRTC_def)

lemma MBC3_Write_in_range:
  assumes n: "0 < m_num_rom_banks c"
    and i: "(ucast (mbc3_rom_bank_number (mbc3 c)) :: uint32) < m_num_rom_banks c"
  shows "(ucast (mbc3_rom_bank_number (mbc3 (MBC_MBC3_Write now a v c))) :: uint32)
           < m_num_rom_banks (MBC_MBC3_Write now a v c)"
proof -
  have u: "\<And>c'. m_num_rom_banks c' = m_num_rom_banks c \<Longrightarrow>
      (ucast (mbc3_rom_bank_number (mbc3 (MBC_MBC3_UpdateActiveBanks c'))) :: uint32)
        < m_num_rom_banks c"
    using MBC3_active_in_range n by metis
  show ?thesis
    using i by (simp add: MBC_MBC3_Write_def Let_def SaveRAM_def u)
qed

lemma MBC5_Write_in_range:
  assumes n: "(ucast (m_num_rom_banks c) :: uint8) \<noteq> 0"
    and i: "(ucast (mbc5_active_rom_bank (mbc5 c)) :: uint32) < m_num_rom_banks c"
  shows "(ucast (mbc5_active_rom_bank (mbc5 (MBC_MBC5_Write a v c))) :: uint32)
           < m_num_rom_banks (MBC_MBC5_Write a v c)"
proof -
  have u: "\<And>c'. m_num_rom_banks c' = m_num_rom_banks c \<Longrightarrow>
      (ucast (mbc5_active_rom_bank (mbc5 (MBC_MBC5_UpdateActiveBanks c'))) :: uint32)
        < m_num_rom_banks c"
    using MBC5_active_in_range n by metis
  show ?thesis
    using i by (simp add: MBC_MBC5_Write_def Let_def SaveRAM_def u)
qed


end
